theory Spec2Isabelle
  imports Main
begin

section \<open>PyDrive2 authentication module (pydrive2/auth.py)\<close>

text \<open>
  A shallow embedding of class \<open>GoogleAuth\<close> and its decorators. Every method is a
  function from the program state to a result and the new state; a Python exception is
  the \<open>Inl\<close> branch of the result. The wrapped libraries (oauth2client, httplib2,
  googleapiclient, requests, redis, the local redirect server, the console) are external
  collaborators: what they answer is read from an environment record, and every call the
  source makes to them is appended to a trace kept in the state. Console output
  (\<open>print\<close>) is not recorded. The embedding covers the methods the properties below
  are about and everything they call; the constructor, the decorator \<open>LoadAuth\<close> and
  \<open>Get_Http_Object\<close> are left out.
\<close>

subsection \<open>Python values\<close>

datatype pyval =
    PNone
  | PBool bool
  | PInt int
  | PStr string
  | PList "pyval list"
  | PDict "(string \<times> pyval) list"

text \<open>Python truth value testing, as used by \<open>if value:\<close>, \<open>and\<close>, \<open>or\<close>.\<close>

fun truthy :: "pyval \<Rightarrow> bool" where
  "truthy PNone = False"
| "truthy (PBool b) = b"
| "truthy (PInt n) = (n \<noteq> 0)"
| "truthy (PStr s) = (s \<noteq> [])"
| "truthy (PList xs) = (xs \<noteq> [])"
| "truthy (PDict kvs) = (kvs \<noteq> [])"

subsection \<open>Exceptions\<close>

text \<open>
  The first five are the error classes of the module (lines 33--50 and the imported
  \<open>InvalidConfigError\<close>); the others are the interpreter's own errors and the
  \<open>OSError\<close> of a storage backend, which the source can let through.
\<close>

datatype error =
    AuthenticationError string
  | AuthenticationRejected string
  | RefreshError string
  | InvalidConfigError string
  | InvalidCredentialsError string
  | KeyError string
  | IndexError
  | TypeError
  | AttributeError
  | OSError string

text \<open>
  \<open>AuthError\<close> is the base class of \<open>AuthenticationRejected\<close>,
  \<open>AuthenticationError\<close> and \<open>RefreshError\<close> (lines 33--50); no other class of
  the module derives from it.
\<close>

fun is_AuthError :: "error \<Rightarrow> bool" where
  "is_AuthError (AuthenticationError m) = True"
| "is_AuthError (AuthenticationRejected m) = True"
| "is_AuthError (RefreshError m) = True"
| "is_AuthError e = False"

subsection \<open>Dictionaries\<close>

type_synonym pydict = "string \<rightharpoonup> pyval"

text \<open>\<open>d.get(k)\<close>: the value, or \<open>None\<close> when the key is missing.\<close>

definition dict_get :: "pydict \<Rightarrow> string \<Rightarrow> pyval" where
  "dict_get d k = (case d k of None \<Rightarrow> PNone | Some v \<Rightarrow> v)"

text \<open>\<open>d[k]\<close>: the value, or \<open>KeyError\<close> when the key is missing.\<close>

definition dict_item :: "pydict \<Rightarrow> string \<Rightarrow> error + pyval" where
  "dict_item d k = (case d k of None \<Rightarrow> Inl (KeyError k) | Some v \<Rightarrow> Inr v)"

text \<open>
  The same two operations on a Python value that is expected to be a dictionary:
  \<open>v.get(k)\<close> raises \<open>AttributeError\<close> and \<open>v[k]\<close> raises \<open>TypeError\<close>
  when \<open>v\<close> is \<open>None\<close>, a number or a boolean; strings and lists have no
  \<open>get\<close> and take integer indices only.
\<close>

fun val_get :: "pyval \<Rightarrow> string \<Rightarrow> error + pyval" where
  "val_get (PDict kvs) k = Inr (dict_get (map_of kvs) k)"
| "val_get v k = Inl AttributeError"

fun val_item :: "pyval \<Rightarrow> string \<Rightarrow> error + pyval" where
  "val_item (PDict kvs) k = dict_item (map_of kvs) k"
| "val_item v k = Inl TypeError"

text \<open>\<open>v[0]\<close>, as applied to \<open>client_info["redirect_uris"]\<close>.\<close>

fun val_first :: "pyval \<Rightarrow> error + pyval" where
  "val_first (PList []) = Inl IndexError"
| "val_first (PList (x # xs)) = Inr x"
| "val_first (PStr []) = Inl IndexError"
| "val_first (PStr (c # cs)) = Inr (PStr [c])"
| "val_first (PDict kvs) = Inl (KeyError ''0'')"
| "val_first v = Inl TypeError"

subsection \<open>Storage backends, credentials, flow, transport\<close>

text \<open>
  The three storage objects built by \<open>_InitializeStoragesFromSettings\<close>, each with
  the arguments the source passes to its constructor.
\<close>

datatype storage =
    Storage pyval
  | DictionaryStorage pyval pyval
  | RedisStorage pyval pyval pyval

text \<open>
  The token bundle. \<open>store\<close> is the storage bound by \<open>set_store\<close>;
  \<open>delegated_sub\<close> is the user a service credential impersonates.
\<close>

record credentials =
  access_token :: string
  refresh_token :: "string option"
  token_expiry :: int
  cred_scopes :: string
  store :: "storage option"
  delegated_sub :: "pyval option"

text \<open>
  Modelled from the spec: the credential object's own property
  \<open>access_token_expired\<close> belongs to the wrapped OAuth library and is not under
  src/. The spec describes a credential as carrying an expiry timestamp and calls it
  expired when the stored expiry is at or before the current time.
\<close>

definition cred_access_token_expired :: "int \<Rightarrow> credentials \<Rightarrow> bool" where
  "cred_access_token_expired current_time c = (token_expiry c \<le> current_time)"

text \<open>The \<open>OAuth2WebServerFlow\<close> object, with the attributes the source sets or reads.\<close>

record flow =
  flow_client_id :: pyval
  flow_client_secret :: pyval
  flow_scope :: pyval
  flow_redirect_uri :: pyval
  flow_auth_uri :: pyval
  flow_token_uri :: pyval
  flow_revoke_uri :: "pyval option"
  flow_params :: "(string \<times> string) list"

text \<open>
  An \<open>httplib2.Http\<close> transport built with a timeout, possibly wrapped by
  \<open>credentials.authorize\<close>; the API service handle built on a transport.
\<close>

datatype http = Http pyval | Authorized credentials http

datatype service = DriveService http

text \<open>The answer of the device-code request.\<close>

record device_codes =
  verification_url :: string
  user_code :: string
  device_code :: string

subsection \<open>Calls to the outside, and what they answer\<close>

datatype event =
    StorageGet storage
  | StoragePut storage "credentials option"
  | LoadFile pyval
  | KeyfileDict pyval string
  | KeyfileName pyval string
  | P12Keyfile pyval pyval string
  | BindServer string int
  | OpenBrowser string
  | HandleRequest int
  | ReadInput string
  | DeviceCodeRequest
  | TokenPost pyval
  | Step2Exchange pyval
  | CredentialsRefresh
  | BuildService

text \<open>The events that read or write a storage backend.\<close>

fun is_storage_event :: "event \<Rightarrow> bool" where
  "is_storage_event (StorageGet st) = True"
| "is_storage_event (StoragePut st c) = True"
| "is_storage_event e = False"

text \<open>
  The environment. An external call can fail with the exception that the source
  handles for it somewhere (\<open>OSError\<close> from a storage or from binding a port,
  \<open>InvalidClientSecretsError\<close>, \<open>FlowExchangeError\<close>,
  \<open>AccessTokenRefreshError\<close>: each the \<open>Inl\<close> branch of the answer, carrying
  the message); a call the source never guards answers with a value.
\<close>

record env =
  current_time :: int
  storage_get :: "storage \<Rightarrow> string + credentials option"
  storage_put :: "storage \<Rightarrow> credentials option \<Rightarrow> string + unit"
  loadfile :: "pyval \<Rightarrow> string + (string \<times> (string \<times> pyval) list)"
  json_loads :: "pyval \<Rightarrow> pyval"
  from_json_keyfile_dict :: "pyval \<Rightarrow> string \<Rightarrow> credentials"
  from_json_keyfile_name :: "pyval \<Rightarrow> string \<Rightarrow> credentials"
  from_p12_keyfile :: "pyval \<Rightarrow> pyval \<Rightarrow> string \<Rightarrow> credentials"
  can_bind :: "string \<Rightarrow> int \<Rightarrow> bool"
  query_params :: "int \<Rightarrow> (string \<times> pyval) list"
  console_input :: "string \<Rightarrow> string"
  step1_get_authorize_url :: "flow \<Rightarrow> string"
  step1_get_device_and_user_codes :: "flow \<Rightarrow> device_codes"
  step2_exchange :: "flow \<Rightarrow> pyval \<Rightarrow> string + credentials"
  token_post :: "flow \<Rightarrow> device_codes \<Rightarrow> int \<times> (string \<times> pyval) list"
  credentials_from_json :: "flow \<Rightarrow> pyval \<Rightarrow> pyval \<Rightarrow> pyval \<Rightarrow> credentials"
  credentials_refresh :: "credentials \<Rightarrow> http \<Rightarrow> string + credentials"

subsection \<open>Program state\<close>

text \<open>
  The attributes of one \<open>GoogleAuth\<close> instance. The \<open>ApiAttribute\<close>
  descriptors read as \<open>None\<close> until they are assigned. \<open>storages\<close> is the
  dictionary \<open>_storages\<close>: a key can be missing, and a key can be present with the
  value \<open>None\<close>.
\<close>

record GoogleAuth =
  settings :: pydict
  client_config :: pydict
  flow :: "flow option"
  credentials :: "credentials option"
  http :: "http option"
  service :: "service option"
  auth_method :: "string option"
  http_timeout :: pyval
  storages :: "string \<rightharpoonup> storage option"
  default_storage :: "storage option"

text \<open>
  The state of the process: the class attribute \<open>SERVICE_CONFIGS_LIST\<close>, one list
  object shared by all instances; the trace of external calls; and the instance
  \<open>self\<close> the running method is bound to.
\<close>

record state =
  SERVICE_CONFIGS_LIST :: "string list"
  trace :: "event list"
  self :: GoogleAuth

definition CLIENT_CONFIGS_LIST :: "string list" where
  "CLIENT_CONFIGS_LIST =
     [''client_id'', ''client_secret'', ''auth_uri'', ''token_uri'', ''revoke_uri'',
      ''redirect_uri'']"

text \<open>The value \<open>SERVICE_CONFIGS_LIST\<close> has when the class is created (line 172).\<close>

definition SERVICE_CONFIGS_LIST_initial :: "string list" where
  "SERVICE_CONFIGS_LIST_initial = [''client_user_email'']"

subsection \<open>Sequencing with exceptions\<close>

type_synonym 'a action = "state \<Rightarrow> (error + 'a) \<times> state"

definition return :: "'a \<Rightarrow> 'a action" where
  "return x s = (Inr x, s)"

definition raise :: "error \<Rightarrow> 'a action" where
  "raise e s = (Inl e, s)"

definition seq :: "'a action \<Rightarrow> ('a \<Rightarrow> 'b action) \<Rightarrow> 'b action" where
  "seq m f s = (case m s of (Inl e, s') \<Rightarrow> (Inl e, s') | (Inr x, s') \<Rightarrow> f x s')"

definition read :: "(GoogleAuth \<Rightarrow> 'a) \<Rightarrow> 'a action" where
  "read f s = (Inr (f (self s)), s)"

definition assign :: "(GoogleAuth \<Rightarrow> GoogleAuth) \<Rightarrow> unit action" where
  "assign f s = (Inr (), s\<lparr>self := f (self s)\<rparr>)"

definition call :: "event \<Rightarrow> unit action" where
  "call ev s = (Inr (), s\<lparr>trace := trace s @ [ev]\<rparr>)"

definition lift :: "error + 'a \<Rightarrow> 'a action" where
  "lift r s = (r, s)"

definition when_do :: "bool \<Rightarrow> unit action \<Rightarrow> unit action" where
  "when_do b m = (if b then m else return ())"

subsection \<open>access_token_expired, _build_http, Authorize, Refresh\<close>

text \<open>Lines 209--217.\<close>

definition access_token_expired :: "env \<Rightarrow> bool action" where
  "access_token_expired E =
     seq (read credentials) (\<lambda>c.
       case c of
         None \<Rightarrow> return True
       | Some cr \<Rightarrow> return (cred_access_token_expired (current_time E) cr))"

text \<open>Lines 810--823; the redirect-code adjustment stays inside the transport object.\<close>

definition build_http :: "http action" where
  "build_http = seq (read http_timeout) (\<lambda>t. return (Http t))"

definition ensure_http :: "http action" where
  "ensure_http =
     seq (read http) (\<lambda>h.
       case h of
         Some h' \<Rightarrow> return h'
       | None \<Rightarrow> seq build_http (\<lambda>h'. seq (assign (\<lambda>a. a\<lparr>http := Some h'\<rparr>)) (\<lambda>_. return h')))"

text \<open>Lines 825--840.\<close>

definition Authorize :: "env \<Rightarrow> unit action" where
  "Authorize E =
     seq (access_token_expired E) (\<lambda>expired.
       if expired then raise (AuthenticationError ''No valid credentials provided to authorize'')
       else
         seq ensure_http (\<lambda>h.
         seq (read credentials) (\<lambda>c.
           case c of
             None \<Rightarrow> raise AttributeError
           | Some cr \<Rightarrow>
               seq (assign (\<lambda>a. a\<lparr>http := Some (Authorized cr h)\<rparr>)) (\<lambda>_.
               seq (call BuildService) (\<lambda>_.
               assign (\<lambda>a. a\<lparr>service := Some (DriveService (Authorized cr h))\<rparr>))))))"

text \<open>Lines 743--763.\<close>

definition Refresh :: "env \<Rightarrow> unit action" where
  "Refresh E =
     seq (read credentials) (\<lambda>c.
       case c of
         None \<Rightarrow> raise (RefreshError ''No credential to refresh.'')
       | Some cr \<Rightarrow>
           seq (read auth_method) (\<lambda>am.
             if refresh_token cr = None \<and> am \<noteq> Some ''service''
             then raise (RefreshError
                    ''No refresh_token found.Please set access_type of OAuth to offline.'')
             else
               seq ensure_http (\<lambda>h.
               seq (call CredentialsRefresh) (\<lambda>_.
                 case credentials_refresh E cr h of
                   Inl reason \<Rightarrow> raise (RefreshError (''Access token refresh failed: '' @ reason))
                 | Inr cr' \<Rightarrow> assign (\<lambda>a. a\<lparr>credentials := Some cr'\<rparr>)))))"

subsection \<open>Helpers of the interpreter and of the OAuth library\<close>

text \<open>\<open>sep.join(xs)\<close> on strings.\<close>

fun join :: "string \<Rightarrow> string list \<Rightarrow> string" where
  "join sep [] = []"
| "join sep [x] = x"
| "join sep (x # y # ys) = x @ sep @ join sep (y # ys)"

text \<open>The strings of a list of values, when every item is a string.\<close>

fun str_items :: "pyval list \<Rightarrow> string list option" where
  "str_items [] = Some []"
| "str_items (PStr x # vs) = (case str_items vs of None \<Rightarrow> None | Some xs \<Rightarrow> Some (x # xs))"
| "str_items (v # vs) = None"

text \<open>
  \<open>scopes_to_string\<close> of the OAuth library's helpers (imported at line 22): a string
  is passed through, anything else goes to \<open>' '.join(scopes)\<close>. Joining raises
  \<open>TypeError\<close> on a value that is not iterable (\<open>None\<close>, a number, a boolean)
  and on an item that is not a string; iterating a dictionary yields its keys.
\<close>

fun scopes_to_string :: "pyval \<Rightarrow> error + string" where
  "scopes_to_string (PStr s) = Inr s"
| "scopes_to_string (PList vs) =
     (case str_items vs of None \<Rightarrow> Inl TypeError | Some xs \<Rightarrow> Inr (join '' '' xs))"
| "scopes_to_string (PDict kvs) = Inr (join '' '' (map fst kvs))"
| "scopes_to_string v = Inl TypeError"

text \<open>
  Decimal notation of an integer, as an f-string prints it: the digits are produced
  from the least significant one and pushed in front of those already there.
\<close>

fun decimal_digits :: "nat \<Rightarrow> string \<Rightarrow> string" where
  "decimal_digits n later =
     (if 10 \<le> n then decimal_digits (n div 10) ((''0123456789'' ! (n mod 10)) # later)
      else (''0123456789'' ! n) # later)"

definition format_int :: "int \<Rightarrow> string" where
  "format_int i =
     (if 0 \<le> i then decimal_digits (nat i) [] else CHR ''-'' # decimal_digits (nat (- i)) [])"

text \<open>\<open>str.strip()\<close>: leading and trailing white space removed.\<close>

definition is_space :: "char \<Rightarrow> bool" where
  "is_space c = (c \<in> set [CHR '' '', CHR 0x09, CHR 0x0A, CHR 0x0B, CHR 0x0C, CHR 0x0D])"

definition strip :: "string \<Rightarrow> string" where
  "strip s = rev (dropWhile is_space (rev (dropWhile is_space s)))"

text \<open>\<open>try: ... except KeyError: ...\<close>: only a \<open>KeyError\<close> reaches the handler.\<close>

definition except_KeyError :: "'a action \<Rightarrow> 'a action \<Rightarrow> 'a action" where
  "except_KeyError m handler s =
     (case m s of
        (Inl (KeyError k), s') \<Rightarrow> handler s'
      | r \<Rightarrow> r)"

text \<open>\<open>self.client_config[key] = value\<close>.\<close>

definition set_client_config :: "string \<Rightarrow> pyval \<Rightarrow> unit action" where
  "set_client_config key v = assign (\<lambda>a. a\<lparr>client_config := (client_config a)(key \<mapsto> v)\<rparr>)"

text \<open>
  Reading the class attribute through \<open>self.SERVICE_CONFIGS_LIST\<close>, and
  \<open>self.SERVICE_CONFIGS_LIST.append(x)\<close>, which changes the one shared list object.
\<close>

definition read_SERVICE_CONFIGS_LIST :: "string list action" where
  "read_SERVICE_CONFIGS_LIST s = (Inr (SERVICE_CONFIGS_LIST s), s)"

definition append_SERVICE_CONFIGS_LIST :: "string \<Rightarrow> unit action" where
  "append_SERVICE_CONFIGS_LIST x s =
     (Inr (), s\<lparr>SERVICE_CONFIGS_LIST := SERVICE_CONFIGS_LIST s @ [x]\<rparr>)"

subsection \<open>Client configuration loaders\<close>

text \<open>The loop of lines 648--649: \<open>self.client_config[config] = client_info[config]\<close>.\<close>

fun copy_client_info :: "(string \<times> pyval) list \<Rightarrow> string list \<Rightarrow> unit action" where
  "copy_client_info client_info [] = return ()"
| "copy_client_info client_info (config # rest) =
     seq (lift (dict_item (map_of client_info) config)) (\<lambda>v.
     seq (set_client_config config v) (\<lambda>_.
     copy_client_info client_info rest))"

text \<open>
  Lines 615--664. \<open>client_config_file\<close> is the optional argument (\<open>PNone\<close> when
  it is left out). \<open>clientsecrets.TYPE_WEB\<close> and \<open>TYPE_INSTALLED\<close> are the
  strings \<open>web\<close> and \<open>installed\<close>.
\<close>

definition LoadClientConfigFile :: "env \<Rightarrow> pyval \<Rightarrow> unit action" where
  "LoadClientConfigFile E client_config_file =
     seq (if client_config_file = PNone
          then seq (read settings) (\<lambda>st. lift (dict_item st ''client_config_file''))
          else return client_config_file) (\<lambda>file.
     seq (call (LoadFile file)) (\<lambda>_.
       case loadfile E file of
         Inl err \<Rightarrow> raise (InvalidConfigError (''Invalid client secrets file '' @ err))
       | Inr (client_type, client_info) \<Rightarrow>
           if client_type \<notin> set [''web'', ''installed'']
           then raise (InvalidConfigError ''Unknown client_type of client config file'')
           else
             seq (except_KeyError
                   (seq (copy_client_info client_info
                          [''client_id'', ''client_secret'', ''auth_uri'', ''token_uri'']) (\<lambda>_.
                    seq (set_client_config ''revoke_uri''
                          (dict_get (map_of client_info) ''revoke_uri'')) (\<lambda>_.
                    seq (lift (dict_item (map_of client_info) ''redirect_uris'')) (\<lambda>uris.
                    seq (lift (val_first uris)) (\<lambda>uri.
                    set_client_config ''redirect_uri'' uri)))))
                   (raise (InvalidConfigError ''Insufficient client config in file''))) (\<lambda>_.
             except_KeyError
               (copy_client_info client_info [''client_email''])
               (return ()))))"

text \<open>Lines 700--713.\<close>

fun copy_client_settings :: "string list \<Rightarrow> unit action" where
  "copy_client_settings [] = return ()"
| "copy_client_settings (config # rest) =
     seq (except_KeyError
           (seq (read settings) (\<lambda>st.
            seq (lift (dict_item st ''client_config'')) (\<lambda>cc.
            seq (lift (val_item cc config)) (\<lambda>v.
            set_client_config config v))))
           (raise (InvalidConfigError ''Insufficient client config in settings''))) (\<lambda>_.
     copy_client_settings rest)"

definition LoadClientConfigSettings :: "unit action" where
  "LoadClientConfigSettings = copy_client_settings CLIENT_CONFIGS_LIST"

text \<open>
  The first loop of \<open>LoadServiceConfigSettings\<close> (lines 677--685): the first entry of
  \<open>configs\<close> whose value in \<open>settings["service_config"]\<close> is truthy, with that
  value; \<open>None\<close> when the loop ends without \<open>break\<close>.
\<close>

fun select_config :: "pydict \<Rightarrow> string list \<Rightarrow> error + (string \<times> pyval) option" where
  "select_config st [] = Inr None"
| "select_config st (config # rest) =
     (case dict_item st ''service_config'' of
        Inl e \<Rightarrow> Inl e
      | Inr sc \<Rightarrow>
          (case val_get sc config of
             Inl e \<Rightarrow> Inl e
           | Inr v \<Rightarrow> if truthy v then Inr (Some (config, v)) else select_config st rest))"

text \<open>The second loop (lines 690--698), over the class-level list as it is then.\<close>

fun copy_service_settings :: "string list \<Rightarrow> unit action" where
  "copy_service_settings [] = return ()"
| "copy_service_settings (config # rest) =
     seq (except_KeyError
           (seq (read settings) (\<lambda>st.
            seq (lift (dict_item st ''service_config'')) (\<lambda>sc.
            seq (lift (val_item sc config)) (\<lambda>v.
            set_client_config config v))))
           (raise (InvalidConfigError
              (''Insufficient service config in settings'' @ [CHR 0x0A, CHR 0x0A] @
               ''Missing: '' @ config @ '' key.'')))) (\<lambda>_.
     copy_service_settings rest)"

definition configs :: "string list" where
  "configs =
     [''client_json_file_path'', ''client_json_dict'', ''client_json'',
      ''client_pkcs12_file_path'']"

text \<open>Lines 666--698.\<close>

definition LoadServiceConfigSettings :: "unit action" where
  "LoadServiceConfigSettings =
     seq (read settings) (\<lambda>st.
     seq (lift (select_config st configs)) (\<lambda>chosen.
       case chosen of
         None \<Rightarrow>
           raise (InvalidConfigError
             ''One of ['client_json_file_path', 'client_json_dict', 'client_json', 'client_pkcs12_file_path'] is required for service authentication'')
       | Some (config, v) \<Rightarrow>
           seq (set_client_config config v) (\<lambda>_.
           seq (when_do (config = ''client_pkcs12_file_path'')
                  (append_SERVICE_CONFIGS_LIST ''client_service_email'')) (\<lambda>_.
           seq read_SERVICE_CONFIGS_LIST (\<lambda>required.
           copy_service_settings required)))))"

text \<open>Lines 590--613. \<open>backend\<close> is the optional argument.\<close>

definition LoadClientConfig :: "env \<Rightarrow> pyval \<Rightarrow> unit action" where
  "LoadClientConfig E backend =
     seq (if backend = PNone
          then seq (read settings) (\<lambda>st.
                 if dict_get st ''client_config_backend'' = PNone
                 then raise (InvalidConfigError ''Please specify client config backend'')
                 else return (dict_get st ''client_config_backend''))
          else return backend) (\<lambda>b.
       if b = PStr ''file'' then LoadClientConfigFile E PNone
       else if b = PStr ''settings'' then LoadClientConfigSettings
       else if b = PStr ''service'' then LoadServiceConfigSettings
       else raise (InvalidConfigError ''Unknown client_config_backend''))"

subsection \<open>Flow\<close>

text \<open>Lines 715--741.\<close>

definition GetFlow :: "env \<Rightarrow> unit action" where
  "GetFlow E =
     seq (read client_config) (\<lambda>cc0.
     seq (when_do (\<not> list_all (\<lambda>config. cc0 config \<noteq> None) CLIENT_CONFIGS_LIST)
            (LoadClientConfig E PNone)) (\<lambda>_.
     seq (read client_config) (\<lambda>cc.
     seq (read settings) (\<lambda>st.
     seq (lift (dict_item cc ''redirect_uri'')) (\<lambda>redirect_uri.
     seq (lift (dict_item cc ''auth_uri'')) (\<lambda>auth_uri.
     seq (lift (dict_item cc ''token_uri'')) (\<lambda>token_uri.
     seq (lift (dict_item cc ''revoke_uri'')) (\<lambda>revoke_uri.
     seq (lift (dict_item cc ''client_id'')) (\<lambda>client_id.
     seq (lift (dict_item cc ''client_secret'')) (\<lambda>client_secret.
     seq (lift (dict_item st ''oauth_scope'')) (\<lambda>oauth_scope.
     seq (lift (scopes_to_string oauth_scope)) (\<lambda>scope.
     assign (\<lambda>a. a\<lparr>flow := Some
       \<lparr>flow_client_id = client_id,
        flow_client_secret = client_secret,
        flow_scope = PStr scope,
        flow_redirect_uri = redirect_uri,
        flow_auth_uri = auth_uri,
        flow_token_uri = token_uri,
        flow_revoke_uri = (if revoke_uri \<noteq> PNone then Some revoke_uri else None),
        flow_params =
          (if truthy (dict_get st ''get_refresh_token'')
           then [(''access_type'', ''offline''), (''approval_prompt'', ''force'')]
           else [(''access_type'', ''online'')])\<rparr>\<rparr>)))))))))))))"

text \<open>\<open>if self.flow is None: self.GetFlow()\<close>, then the flow that is there.\<close>

definition ensure_flow :: "env \<Rightarrow> flow action" where
  "ensure_flow E =
     seq (read flow) (\<lambda>f0.
     seq (when_do (f0 = None) (GetFlow E)) (\<lambda>_.
     seq (read flow) (\<lambda>f.
       case f of None \<Rightarrow> raise AttributeError | Some fl \<Rightarrow> return fl)))"

text \<open>Lines 765--774.\<close>

definition GetDeviceCode :: "env \<Rightarrow> device_codes action" where
  "GetDeviceCode E =
     seq (ensure_flow E) (\<lambda>fl.
     seq (call DeviceCodeRequest) (\<lambda>_.
     return (step1_get_device_and_user_codes E fl)))"

text \<open>Lines 776--783.\<close>

definition GetAuthUrl :: "env \<Rightarrow> string action" where
  "GetAuthUrl E = seq (ensure_flow E) (\<lambda>fl. return (step1_get_authorize_url E fl))"

text \<open>Lines 795--808.\<close>

definition Authenticate :: "env \<Rightarrow> pyval \<Rightarrow> unit action" where
  "Authenticate E code =
     seq (ensure_flow E) (\<lambda>fl.
     seq (call (Step2Exchange code)) (\<lambda>_.
       case step2_exchange E fl code of
         Inl reason \<Rightarrow> raise (AuthenticationError (''OAuth2 code exchange failed: '' @ reason))
       | Inr cr \<Rightarrow> assign (\<lambda>a. a\<lparr>credentials := Some cr\<rparr>)))"

text \<open>Lines 785--793.\<close>

definition Auth :: "env \<Rightarrow> pyval \<Rightarrow> unit action" where
  "Auth E code = seq (Authenticate E code) (\<lambda>_. Authorize E)"

subsection \<open>Loading and saving credentials\<close>

text \<open>\<open>self._storages[key]\<close>.\<close>

definition storages_item :: "string \<Rightarrow> storage option action" where
  "storages_item key =
     seq (read storages) (\<lambda>sts.
       case sts key of None \<Rightarrow> raise (KeyError key) | Some st \<Rightarrow> return st)"

text \<open>
  \<open>self.credentials = self._default_storage.get()\<close> followed by
  \<open>if self.credentials: self.credentials.set_store(self._default_storage)\<close>, for a
  default storage that is not \<open>None\<close>. An \<open>OSError\<close> of the backend is passed to
  \<open>on_OSError\<close>.
\<close>

definition get_credentials_from :: "env \<Rightarrow> storage \<Rightarrow> (string \<Rightarrow> error) \<Rightarrow> unit action" where
  "get_credentials_from E st on_OSError =
     seq (call (StorageGet st)) (\<lambda>_.
       case storage_get E st of
         Inl msg \<Rightarrow> raise (on_OSError msg)
       | Inr None \<Rightarrow> assign (\<lambda>a. a\<lparr>credentials := None\<rparr>)
       | Inr (Some cr) \<Rightarrow> assign (\<lambda>a. a\<lparr>credentials := Some (cr\<lparr>store := Some st\<rparr>)\<rparr>))"

text \<open>\<open>storage.put(self.credentials)\<close>.\<close>

definition put_credentials_to :: "env \<Rightarrow> storage \<Rightarrow> (string \<Rightarrow> error) \<Rightarrow> unit action" where
  "put_credentials_to E st on_OSError =
     seq (read credentials) (\<lambda>c.
     seq (call (StoragePut st c)) (\<lambda>_.
       case storage_put E st c of
         Inl msg \<Rightarrow> raise (on_OSError msg)
       | Inr u \<Rightarrow> return ()))"

text \<open>Lines 465--493. \<open>credentials_file\<close> is the optional argument.\<close>

definition LoadCredentialsFile :: "env \<Rightarrow> pyval \<Rightarrow> unit action" where
  "LoadCredentialsFile E credentials_file =
     seq (if credentials_file = PNone
          then
            seq (storages_item ''file'') (\<lambda>st.
            seq (assign (\<lambda>a. a\<lparr>default_storage := st\<rparr>)) (\<lambda>_.
              case st of
                None \<Rightarrow> raise (InvalidConfigError
                  ''Backend `file` is not configured, specify credentials file to read in the settings file or pass an explicit value'')
              | Some st' \<Rightarrow> return st'))
          else
            seq (assign (\<lambda>a. a\<lparr>default_storage := Some (Storage credentials_file)\<rparr>)) (\<lambda>_.
            return (Storage credentials_file))) (\<lambda>st.
     get_credentials_from E st
       (\<lambda>msg. InvalidCredentialsError ''Credentials file cannot be symbolic link''))"

text \<open>Lines 495--506.\<close>

definition LoadCredentialsDictionary :: "env \<Rightarrow> unit action" where
  "LoadCredentialsDictionary E =
     seq (storages_item ''dictionary'') (\<lambda>st.
     seq (assign (\<lambda>a. a\<lparr>default_storage := st\<rparr>)) (\<lambda>_.
       case st of
         None \<Rightarrow> raise (InvalidConfigError
           ''Backend `dictionary` is not configured, specify credentials dict and key to read in the settings file'')
       | Some st' \<Rightarrow> get_credentials_from E st' OSError))"

text \<open>Lines 508--519.\<close>

definition LoadCredentialsRedis :: "env \<Rightarrow> unit action" where
  "LoadCredentialsRedis E =
     seq (storages_item ''redis'') (\<lambda>st.
     seq (assign (\<lambda>a. a\<lparr>default_storage := st\<rparr>)) (\<lambda>_.
       case st of
         None \<Rightarrow> raise (InvalidConfigError
           ''Backend `redis` is not configured, specify credentials dict and key to read in the settings file'')
       | Some st' \<Rightarrow> get_credentials_from E st' OSError))"

text \<open>
  The backend named by the optional argument, or else by the setting
  \<open>save_credentials_backend\<close> (lines 452--455 and 531--534).
\<close>

definition credential_backend :: "pyval \<Rightarrow> pyval action" where
  "credential_backend backend =
     (if backend = PNone
      then seq (read settings) (\<lambda>st.
             if dict_get st ''save_credentials_backend'' = PNone
             then raise (InvalidConfigError ''Please specify credential backend'')
             else return (dict_get st ''save_credentials_backend''))
      else return backend)"

text \<open>Lines 445--463.\<close>

definition LoadCredentials :: "env \<Rightarrow> pyval \<Rightarrow> unit action" where
  "LoadCredentials E backend =
     seq (credential_backend backend) (\<lambda>b.
       if b = PStr ''file'' then LoadCredentialsFile E PNone
       else if b = PStr ''dictionary'' then LoadCredentialsDictionary E
       else if b = PStr ''redis'' then LoadCredentialsRedis E
       else raise (InvalidConfigError ''Unknown save_credentials_backend''))"

text \<open>Lines 544--547.\<close>

definition SaveCredentialsRedis :: "env \<Rightarrow> unit action" where
  "SaveCredentialsRedis E =
     seq (storages_item ''redis'') (\<lambda>st.
       case st of
         None \<Rightarrow> raise AttributeError
       | Some st' \<Rightarrow> put_credentials_to E st' OSError)"

text \<open>Lines 549--575. \<open>credentials_file\<close> is the optional argument.\<close>

definition SaveCredentialsFile :: "env \<Rightarrow> pyval \<Rightarrow> unit action" where
  "SaveCredentialsFile E credentials_file =
     seq (read credentials) (\<lambda>c.
       if c = None then raise (InvalidCredentialsError ''No credentials to save'')
       else
         seq (if credentials_file = PNone
              then
                seq (storages_item ''file'') (\<lambda>st.
                  case st of
                    None \<Rightarrow> raise (InvalidConfigError
                      ''Backend `file` is not configured, specify credentials file to read in the settings file or pass an explicit value'')
                  | Some st' \<Rightarrow> return st')
              else return (Storage credentials_file)) (\<lambda>st.
         put_credentials_to E st
           (\<lambda>msg. InvalidCredentialsError ''Credentials file cannot be symbolic link'')))"

text \<open>Lines 577--588.\<close>

definition SaveCredentialsDictionary :: "env \<Rightarrow> unit action" where
  "SaveCredentialsDictionary E =
     seq (read credentials) (\<lambda>c.
       if c = None then raise (InvalidCredentialsError ''No credentials to save'')
       else
         seq (storages_item ''dictionary'') (\<lambda>st.
           case st of
             None \<Rightarrow> raise (InvalidConfigError
               ''Backend `dictionary` is not configured, specify credentials dict and key to write in the settings file'')
           | Some st' \<Rightarrow> put_credentials_to E st' OSError))"

text \<open>Lines 521--542.\<close>

definition SaveCredentials :: "env \<Rightarrow> pyval \<Rightarrow> unit action" where
  "SaveCredentials E backend =
     seq (credential_backend backend) (\<lambda>b.
       if b = PStr ''file'' then SaveCredentialsFile E PNone
       else if b = PStr ''dictionary'' then SaveCredentialsDictionary E
       else if b = PStr ''redis'' then SaveCredentialsRedis E
       else raise (InvalidConfigError ''Unknown save_credentials_backend''))"

subsection \<open>The decorators\<close>

text \<open>\<open>self.credentials.set_store(self._default_storage)\<close>.\<close>

definition set_store :: "unit action" where
  "set_store =
     seq (read credentials) (\<lambda>c.
       case c of
         None \<Rightarrow> raise AttributeError
       | Some cr \<Rightarrow>
           seq (read default_storage) (\<lambda>d.
           assign (\<lambda>a. a\<lparr>credentials := Some (cr\<lparr>store := d\<rparr>)\<rparr>)))"

text \<open>
  Lines 127--145 of \<open>CheckAuth\<close>, with the local variable \<open>save_credentials\<close>
  as a parameter.
\<close>

definition CheckAuth_wrapper :: "env \<Rightarrow> pyval \<Rightarrow> pyval action \<Rightarrow> unit action" where
  "CheckAuth_wrapper E save_credentials decoratee =
     seq (read credentials) (\<lambda>c0.
     seq (when_do (c0 = None \<and> truthy save_credentials) (LoadCredentials E PNone)) (\<lambda>_.
     seq (read flow) (\<lambda>f0.
     seq (when_do (f0 = None) (GetFlow E)) (\<lambda>_.
     seq (read credentials) (\<lambda>c1.
     seq (case c1 of
            None \<Rightarrow> seq decoratee (\<lambda>code. return (code, True))
          | Some cr \<Rightarrow>
              seq (access_token_expired E) (\<lambda>expired.
                if expired then
                  (if refresh_token cr \<noteq> None
                   then seq (Refresh E) (\<lambda>_. return (PNone, True))
                   else seq decoratee (\<lambda>code. return (code, True)))
                else return (PNone, False))) (\<lambda>(code, dirty).
     seq (when_do (code \<noteq> PNone) (Auth E code)) (\<lambda>_.
     seq set_store (\<lambda>_.
     when_do (dirty \<and> truthy save_credentials) (SaveCredentials E PNone)))))))))"

text \<open>
  Lines 119--147. The decorated method is \<open>CheckAuth E decoratee\<close>; the wrapper
  returns nothing, the code the decoratee returns goes to \<open>Auth\<close>.
\<close>

definition CheckAuth :: "env \<Rightarrow> pyval action \<Rightarrow> unit action" where
  "CheckAuth E decoratee =
     seq (read settings) (\<lambda>st.
     CheckAuth_wrapper E (dict_get st ''save_credentials'') decoratee)"

text \<open>
  Lines 103--114 of \<open>CheckServiceAuth\<close>, with the local variable
  \<open>save_credentials\<close> as a parameter.
\<close>

definition CheckServiceAuth_wrapper :: "env \<Rightarrow> pyval \<Rightarrow> unit action \<Rightarrow> unit action" where
  "CheckServiceAuth_wrapper E save_credentials decoratee =
     seq (read credentials) (\<lambda>c0.
     seq (when_do (c0 = None \<and> truthy save_credentials) (LoadCredentials E PNone)) (\<lambda>_.
     seq (read credentials) (\<lambda>c1.
     seq (case c1 of
            None \<Rightarrow> seq decoratee (\<lambda>_. seq (Authorize E) (\<lambda>_. return True))
          | Some cr \<Rightarrow>
              seq (access_token_expired E) (\<lambda>expired.
                if expired then seq (Refresh E) (\<lambda>_. return True)
                else return False)) (\<lambda>dirty.
     seq set_store (\<lambda>_.
     when_do (dirty \<and> truthy save_credentials) (SaveCredentials E PNone))))))"

text \<open>Lines 95--116.\<close>

definition CheckServiceAuth :: "env \<Rightarrow> unit action \<Rightarrow> unit action" where
  "CheckServiceAuth E decoratee =
     seq (assign (\<lambda>a. a\<lparr>auth_method := Some ''service''\<rparr>)) (\<lambda>_.
     seq (read settings) (\<lambda>st.
     CheckServiceAuth_wrapper E (dict_get st ''save_credentials'') decoratee))"

subsection \<open>The authorization variants\<close>

text \<open>
  Reading an attribute of \<open>self.flow\<close>, and an attribute assignment
  \<open>self.flow.x = v\<close>: \<open>AttributeError\<close> when \<open>self.flow\<close> is \<open>None\<close>.
\<close>

definition the_flow :: "flow action" where
  "the_flow =
     seq (read flow) (\<lambda>f.
       case f of
         None \<Rightarrow> raise AttributeError
       | Some fl \<Rightarrow> return fl)"

definition update_flow :: "(flow \<Rightarrow> flow) \<Rightarrow> unit action" where
  "update_flow g =
     seq (read flow) (\<lambda>f.
       case f of
         None \<Rightarrow> raise AttributeError
       | Some fl \<Rightarrow> assign (\<lambda>a. a\<lparr>flow := Some (g fl)\<rparr>))"

text \<open>
  The loop of lines 254--264 over the candidate ports: whether a server was bound, and
  the last port tried (\<open>port_number\<close>, 0 before the first).
\<close>

fun bind_ports :: "env \<Rightarrow> string \<Rightarrow> int list \<Rightarrow> int \<Rightarrow> (bool \<times> int) action" where
  "bind_ports E addr [] port_number = return (False, port_number)"
| "bind_ports E addr (port # rest) port_number =
     seq (call (BindServer addr port)) (\<lambda>_.
       if can_bind E addr port then return (True, port)
       else bind_ports E addr rest port)"

text \<open>\<open>bind_addr or host_name\<close> (line 258).\<close>

definition bind_address :: "string option \<Rightarrow> string \<Rightarrow> string" where
  "bind_address bind_addr host_name =
     (case bind_addr of
        None \<Rightarrow> host_name
      | Some b \<Rightarrow> if b \<noteq> [] then b else host_name)"

text \<open>The candidate ports: the argument, or the default of lines 246--251.\<close>

definition candidate_ports :: "int list option \<Rightarrow> int list" where
  "candidate_ports port_numbers =
     (case port_numbers of None \<Rightarrow> [8080, 8090] | Some ps \<Rightarrow> ps)"

text \<open>
  Lines 220--297, the function that \<open>CheckAuth\<close> wraps. \<open>port_numbers\<close> and
  \<open>bind_addr\<close> are optional arguments.
\<close>

definition LocalWebserverAuth_body ::
  "env \<Rightarrow> string \<Rightarrow> int list option \<Rightarrow> bool \<Rightarrow> string option \<Rightarrow> pyval action" where
  "LocalWebserverAuth_body E host_name port_numbers launch_browser bind_addr =
     seq (bind_ports E (bind_address bind_addr host_name) (candidate_ports port_numbers) 0)
       (\<lambda>(success, port_number).
       if \<not> success then raise (AuthenticationError [])
       else
         seq (update_flow (\<lambda>fl. fl\<lparr>flow_redirect_uri :=
                PStr (''http://'' @ host_name @ '':'' @ format_int port_number @ ''/'')\<rparr>)) (\<lambda>_.
         seq (GetAuthUrl E) (\<lambda>authorize_url.
         seq (when_do launch_browser (call (OpenBrowser authorize_url))) (\<lambda>_.
         seq (call (HandleRequest port_number)) (\<lambda>_.
           if map_of (query_params E port_number) ''error'' \<noteq> None
           then raise (AuthenticationRejected ''User rejected authentication'')
           else
             (case map_of (query_params E port_number) ''code'' of
                Some code \<Rightarrow> return code
              | None \<Rightarrow> raise (AuthenticationError ''No code found in redirect'')))))))"

definition LocalWebserverAuth ::
  "env \<Rightarrow> string \<Rightarrow> int list option \<Rightarrow> bool \<Rightarrow> string option \<Rightarrow> unit action" where
  "LocalWebserverAuth E host_name port_numbers launch_browser bind_addr =
     CheckAuth E (LocalWebserverAuth_body E host_name port_numbers launch_browser bind_addr)"

text \<open>Lines 300--312; \<open>OOB_CALLBACK_URN\<close> is the library's out-of-band redirect URN.\<close>

definition CommandLineAuth_body :: "env \<Rightarrow> pyval action" where
  "CommandLineAuth_body E =
     seq (update_flow (\<lambda>fl. fl\<lparr>flow_redirect_uri := PStr ''urn:ietf:wg:oauth:2.0:oob''\<rparr>)) (\<lambda>_.
     seq (GetAuthUrl E) (\<lambda>authorize_url.
     seq (call (ReadInput ''Enter verification code: '')) (\<lambda>_.
     return (PStr (strip (console_input E ''Enter verification code: ''))))))"

definition CommandLineAuth :: "env \<Rightarrow> unit action" where
  "CommandLineAuth E = CheckAuth E (CommandLineAuth_body E)"

text \<open>Lines 315--359, the function that \<open>CheckAuth\<close> wraps; it returns \<open>None\<close>.\<close>

definition DeviceAuth_body :: "env \<Rightarrow> pyval action" where
  "DeviceAuth_body E =
     seq (read client_config) (\<lambda>cc.
     seq (update_flow (\<lambda>fl. fl\<lparr>flow_client_id := dict_get cc ''client_id''\<rparr>)) (\<lambda>_.
     seq (read settings) (\<lambda>st.
     seq (lift (scopes_to_string (dict_get st ''oauth_scope''))) (\<lambda>scope.
     seq (update_flow (\<lambda>fl. fl\<lparr>flow_scope := PStr scope\<rparr>)) (\<lambda>_.
     seq (read flow) (\<lambda>f.
       if map_option flow_client_id f = Some PNone
       then raise (InvalidConfigError ''client_id is required for Device Authentication'')
       else if map_option flow_scope f = Some PNone
       then raise (InvalidConfigError ''oauth_scope is required for Device Authentication'')
       else
         seq (GetDeviceCode E) (\<lambda>user_and_device_code.
         seq (call (ReadInput ''Press Enter to continue...'')) (\<lambda>_.
         seq the_flow (\<lambda>fl.
         seq (call (TokenPost (PStr (device_code user_and_device_code)))) (\<lambda>_.
           case token_post E fl user_and_device_code of
             (status_code, json_resp) \<Rightarrow>
               if status_code \<noteq> 200
               then raise (AuthenticationError ''Failed to get access token'')
               else
                 seq (lift (dict_item (map_of json_resp) ''access_token'')) (\<lambda>at.
                 seq (lift (dict_item (map_of json_resp) ''refresh_token'')) (\<lambda>rt.
                 seq (lift (dict_item (map_of json_resp) ''expires_in'')) (\<lambda>expires_in.
                 seq (assign (\<lambda>a. a\<lparr>credentials :=
                        Some (credentials_from_json E fl at rt expires_in)\<rparr>)) (\<lambda>_.
                 return PNone))))))))))))))"

definition DeviceAuth :: "env \<Rightarrow> unit action" where
  "DeviceAuth E = CheckAuth E (DeviceAuth_body E)"

text \<open>
  Lines 369--403 of \<open>ServiceAuth\<close>: the key material is taken from
  \<open>client_config\<close> and the credential is built from it.
  \<open>create_delegated\<close> is recorded in the credential's \<open>delegated_sub\<close>.
\<close>

definition service_credentials :: "env \<Rightarrow> unit action" where
  "service_credentials E =
     seq (read settings) (\<lambda>st.
     seq (lift (dict_item st ''oauth_scope'')) (\<lambda>oauth_scope.
     seq (lift (scopes_to_string oauth_scope)) (\<lambda>scopes.
     seq (read client_config) (\<lambda>cc.
     seq (return (if \<not> truthy (dict_get cc ''client_json_dict'')
                    \<and> truthy (dict_get cc ''client_json'')
                  then json_loads E (dict_get cc ''client_json'')
                  else dict_get cc ''client_json_dict'')) (\<lambda>keyfile_dict.
     seq (if truthy keyfile_dict
          then
            seq (call (KeyfileDict keyfile_dict scopes)) (\<lambda>_.
            assign (\<lambda>a. a\<lparr>credentials :=
              Some (from_json_keyfile_dict E keyfile_dict scopes)\<rparr>))
          else if truthy (dict_get cc ''client_json_file_path'')
          then
            seq (call (KeyfileName (dict_get cc ''client_json_file_path'') scopes)) (\<lambda>_.
            assign (\<lambda>a. a\<lparr>credentials :=
              Some (from_json_keyfile_name E (dict_get cc ''client_json_file_path'') scopes)\<rparr>))
          else
            seq (lift (dict_item cc ''client_service_email'')) (\<lambda>service_email.
            seq (lift (dict_item cc ''client_pkcs12_file_path'')) (\<lambda>file_path.
            seq (call (P12Keyfile service_email file_path scopes)) (\<lambda>_.
            assign (\<lambda>a. a\<lparr>credentials :=
              Some (from_p12_keyfile E service_email file_path scopes)\<rparr>))))) (\<lambda>_.
     when_do (truthy (dict_get cc ''client_user_email''))
       (assign (\<lambda>a. a\<lparr>credentials :=
          map_option (\<lambda>cr. cr\<lparr>delegated_sub := Some (dict_get cc ''client_user_email'')\<rparr>)
            (credentials a)\<rparr>))))))))"

text \<open>
  Lines 362--403, the function that \<open>CheckServiceAuth\<close> wraps: the service
  configuration is loaded from the settings when a required field is not yet in
  \<open>client_config\<close> (lines 367--368), then the credential is built.
\<close>

definition ServiceAuth_body :: "env \<Rightarrow> unit action" where
  "ServiceAuth_body E =
     seq read_SERVICE_CONFIGS_LIST (\<lambda>required.
     seq (read client_config) (\<lambda>cc0.
     seq (when_do (list_ex (\<lambda>config. cc0 config = None) required)
            LoadServiceConfigSettings) (\<lambda>_.
     service_credentials E)))"

definition ServiceAuth :: "env \<Rightarrow> unit action" where
  "ServiceAuth E = CheckServiceAuth E (ServiceAuth_body E)"

subsection \<open>Vocabulary of the statements\<close>

text \<open>The storage reads and writes recorded in a state.\<close>

definition storage_calls :: "state \<Rightarrow> event list" where
  "storage_calls s = filter is_storage_event (trace s)"

text \<open>An action leaves an observation of the state as it was, from any state.\<close>

definition keeps :: "(state \<Rightarrow> 'b) \<Rightarrow> 'a action \<Rightarrow> bool" where
  "keeps obs m = (\<forall>s. obs (snd (m s)) = obs s)"

text \<open>The redirect requests served by the local server.\<close>

fun is_HandleRequest :: "event \<Rightarrow> bool" where
  "is_HandleRequest (HandleRequest port) = True"
| "is_HandleRequest e = False"

text \<open>The result is a raised \<open>RefreshError\<close>.\<close>

fun raises_RefreshError :: "error + 'a \<Rightarrow> bool" where
  "raises_RefreshError (Inl (RefreshError m)) = True"
| "raises_RefreshError r = False"

text \<open>
  The transport \<open>Refresh\<close> hands to the library: \<open>self.http\<close>, built first when it
  is \<open>None\<close>.
\<close>

definition refresh_transport :: "state \<Rightarrow> http" where
  "refresh_transport s =
     (case http (self s) of Some h \<Rightarrow> h | None \<Rightarrow> Http (http_timeout (self s)))"

subsection \<open>A concrete environment and concrete instances\<close>

definition demo_credentials :: credentials where
  "demo_credentials =
     \<lparr>access_token = ''token'', refresh_token = Some ''refresh'', token_expiry = 2000,
      cred_scopes = ''https://www.googleapis.com/auth/drive'', store = None,
      delegated_sub = None\<rparr>"

definition demo_env :: env where
  "demo_env =
     \<lparr>current_time = 1000,
      storage_get = (\<lambda>st. Inr None),
      storage_put = (\<lambda>st c. Inr ()),
      loadfile = (\<lambda>file. Inl ''File not found''),
      json_loads = (\<lambda>v. PDict [(''type'', PStr ''service_account'')]),
      from_json_keyfile_dict = (\<lambda>d scopes. demo_credentials),
      from_json_keyfile_name = (\<lambda>name scopes. demo_credentials),
      from_p12_keyfile = (\<lambda>email path scopes. demo_credentials),
      can_bind = (\<lambda>addr port. port = 8090),
      query_params = (\<lambda>port. [(''code'', PStr ''abc123'')]),
      console_input = (\<lambda>prompt. '' abc123 ''),
      step1_get_authorize_url = (\<lambda>fl. ''https://accounts.example/o/oauth2/auth''),
      step1_get_device_and_user_codes =
        (\<lambda>fl. \<lparr>verification_url = ''https://accounts.example/device'', user_code = ''USER'',
               device_code = ''DEVICE''\<rparr>),
      step2_exchange = (\<lambda>fl code. Inr demo_credentials),
      token_post = (\<lambda>fl codes. (400, [])),
      credentials_from_json = (\<lambda>fl at rt expires_in. demo_credentials),
      credentials_refresh = (\<lambda>cr h. Inr (cr\<lparr>token_expiry := 5000\<rparr>))\<rparr>"

text \<open>
  An instance as \<open>__init__\<close> leaves it when no storage backend is configured
  (\<open>client_config = {}\<close>, every \<open>ApiAttribute\<close> unset, \<open>_storages\<close> with its
  two \<open>None\<close> entries), in a process where the class list still has its initial value.
\<close>

definition fresh_auth :: "pydict \<Rightarrow> GoogleAuth" where
  "fresh_auth st =
     \<lparr>settings = st, client_config = Map.empty, flow = None, credentials = None,
      http = None, service = None, auth_method = None, http_timeout = PNone,
      storages = [''file'' \<mapsto> None, ''dictionary'' \<mapsto> None], default_storage = None\<rparr>"

definition fresh_state :: "pydict \<Rightarrow> state" where
  "fresh_state st =
     \<lparr>SERVICE_CONFIGS_LIST = SERVICE_CONFIGS_LIST_initial, trace = [], self = fresh_auth st\<rparr>"

definition DEFAULT_SETTINGS :: pydict where
  "DEFAULT_SETTINGS =
     [''client_config_backend'' \<mapsto> PStr ''file'',
      ''client_config_file'' \<mapsto> PStr ''client_secrets.json'',
      ''save_credentials'' \<mapsto> PBool False,
      ''oauth_scope'' \<mapsto> PList [PStr ''https://www.googleapis.com/auth/drive'']]"

text \<open>Settings of a service account with a PKCS12 key.\<close>

definition p12_settings :: pydict where
  "p12_settings =
     [''client_config_backend'' \<mapsto> PStr ''service'',
      ''save_credentials'' \<mapsto> PBool False,
      ''oauth_scope'' \<mapsto> PList [PStr ''https://www.googleapis.com/auth/drive''],
      ''service_config'' \<mapsto> PDict
         [(''client_pkcs12_file_path'', PStr ''key.p12''),
          (''client_service_email'', PStr ''robot@example.org''),
          (''client_user_email'', PStr ''user@example.org'')]]"

text \<open>
  An instance whose settings name the redis backend, as \<open>__init__\<close> leaves it: the
  storage dictionary has the additional entry \<open>redis\<close>, which is also the default
  storage.
\<close>

definition redis_settings :: pydict where
  "redis_settings =
     [''client_config_backend'' \<mapsto> PStr ''file'',
      ''client_config_file'' \<mapsto> PStr ''client_secrets.json'',
      ''save_credentials'' \<mapsto> PBool True,
      ''save_credentials_backend'' \<mapsto> PStr ''redis'',
      ''redis_key'' \<mapsto> PStr ''credentials'',
      ''oauth_scope'' \<mapsto> PList [PStr ''https://www.googleapis.com/auth/drive'']]"

definition redis_state :: state where
  "redis_state =
     \<lparr>SERVICE_CONFIGS_LIST = SERVICE_CONFIGS_LIST_initial, trace = [],
      self = (fresh_auth redis_settings)
        \<lparr>storages := [''file'' \<mapsto> None, ''dictionary'' \<mapsto> None,
                      ''redis'' \<mapsto> Some (RedisStorage (PStr ''127.0.0.1'') (PInt 6379)
                                          (PStr ''credentials''))],
         default_storage := Some (RedisStorage (PStr ''127.0.0.1'') (PInt 6379)
                                   (PStr ''credentials''))\<rparr>\<rparr>"

text \<open>A flow as \<open>GetFlow\<close> builds it, and an instance that holds it.\<close>

definition demo_flow :: flow where
  "demo_flow =
     \<lparr>flow_client_id = PStr ''client-id'', flow_client_secret = PStr ''secret'',
      flow_scope = PStr ''https://www.googleapis.com/auth/drive'',
      flow_redirect_uri = PStr ''http://localhost:8080/'',
      flow_auth_uri = PStr ''https://accounts.example/o/oauth2/auth'',
      flow_token_uri = PStr ''https://accounts.example/o/oauth2/token'',
      flow_revoke_uri = None, flow_params = [(''access_type'', ''online'')]\<rparr>"

definition flow_state :: state where
  "flow_state =
     \<lparr>SERVICE_CONFIGS_LIST = SERVICE_CONFIGS_LIST_initial, trace = [],
      self = (fresh_auth DEFAULT_SETTINGS)\<lparr>flow := Some demo_flow\<rparr>\<rparr>"

text \<open>
  Two client-secrets files of type \<open>web\<close>: one whose \<open>redirect_uris\<close> is the
  empty list, one without the key \<open>redirect_uris\<close>; and the environments in which
  \<open>clientsecrets.loadfile\<close> hands them over.
\<close>

definition empty_redirect_uris_file :: "(string \<times> pyval) list" where
  "empty_redirect_uris_file =
     [(''client_id'', PStr ''client-id''), (''client_secret'', PStr ''secret''),
      (''auth_uri'', PStr ''https://accounts.example/o/oauth2/auth''),
      (''token_uri'', PStr ''https://accounts.example/o/oauth2/token''),
      (''redirect_uris'', PList [])]"

definition no_redirect_uris_file :: "(string \<times> pyval) list" where
  "no_redirect_uris_file =
     [(''client_id'', PStr ''client-id''), (''client_secret'', PStr ''secret''),
      (''auth_uri'', PStr ''https://accounts.example/o/oauth2/auth''),
      (''token_uri'', PStr ''https://accounts.example/o/oauth2/token'')]"

definition file_env :: "(string \<times> pyval) list \<Rightarrow> env" where
  "file_env client_info = demo_env\<lparr>loadfile := \<lambda>file. Inr (''web'', client_info)\<rparr>"

text \<open>
  An instance that holds a flow and a client id, with settings that have no
  \<open>oauth_scope\<close>; and one with the default settings and no client id.
\<close>

definition no_scope_state :: state where
  "no_scope_state =
     \<lparr>SERVICE_CONFIGS_LIST = SERVICE_CONFIGS_LIST_initial, trace = [],
      self = (fresh_auth [''client_config_backend'' \<mapsto> PStr ''file'',
                          ''save_credentials'' \<mapsto> PBool False])
        \<lparr>flow := Some demo_flow,
         client_config := [''client_id'' \<mapsto> PStr ''client-id'']\<rparr>\<rparr>"

text \<open>
  Settings of a service account that configure both a key file path and an inline key
  dictionary.
\<close>

definition both_keys_settings :: pydict where
  "both_keys_settings =
     [''client_config_backend'' \<mapsto> PStr ''service'',
      ''save_credentials'' \<mapsto> PBool False,
      ''oauth_scope'' \<mapsto> PList [PStr ''https://www.googleapis.com/auth/drive''],
      ''service_config'' \<mapsto> PDict
         [(''client_json_file_path'', PStr ''key.json''),
          (''client_json_dict'', PDict [(''type'', PStr ''service_account'')]),
          (''client_user_email'', PStr ''user@example.org'')]]"

text \<open>
  An instance whose \<open>client_config\<close> already holds the required service field and
  both kinds of key material.
\<close>

definition loaded_both_state :: state where
  "loaded_both_state =
     \<lparr>SERVICE_CONFIGS_LIST = SERVICE_CONFIGS_LIST_initial, trace = [],
      self = (fresh_auth both_keys_settings)
        \<lparr>client_config :=
           [''client_user_email'' \<mapsto> PStr ''user@example.org'',
            ''client_json_file_path'' \<mapsto> PStr ''key.json'',
            ''client_json_dict'' \<mapsto> PDict [(''type'', PStr ''service_account'')]]\<rparr>\<rparr>"

section \<open>Properties\<close>

subsection \<open>Sequencing\<close>

lemma seq_return [simp]: "seq (return x) f = f x"
  by (rule ext) (simp add: seq_def return_def)

lemma seq_raise [simp]: "seq (raise e) f = raise e"
  by (rule ext) (simp add: seq_def raise_def)

lemma seq_read [simp]: "seq (read g) f s = f (g (self s)) s"
  by (simp add: seq_def read_def)

lemma seq_assign [simp]: "seq (assign g) f s = f () (s\<lparr>self := g (self s)\<rparr>)"
  by (simp add: seq_def assign_def)

lemma seq_call [simp]: "seq (call ev) f s = f () (s\<lparr>trace := trace s @ [ev]\<rparr>)"
  by (simp add: seq_def call_def)

lemma seq_lift_Inr [simp]: "seq (lift (Inr x)) f = f x"
  by (rule ext) (simp add: seq_def lift_def)

lemma seq_lift_Inl [simp]: "seq (lift (Inl e)) f = raise e"
  by (rule ext) (simp add: seq_def lift_def raise_def)

lemma when_do_True [simp]: "when_do True m = m"
  by (simp add: when_do_def)

lemma when_do_False [simp]: "when_do False m = return ()"
  by (simp add: when_do_def)

lemma raise_apply [simp]: "raise e s = (Inl e, s)"
  by (simp add: raise_def)

lemma return_apply [simp]: "return x s = (Inr x, s)"
  by (simp add: return_def)

lemma assign_apply [simp]: "assign g s = (Inr (), s\<lparr>self := g (self s)\<rparr>)"
  by (simp add: assign_def)

lemma call_apply [simp]: "call ev s = (Inr (), s\<lparr>trace := trace s @ [ev]\<rparr>)"
  by (simp add: call_def)

lemma read_apply [simp]: "read g s = (Inr (g (self s)), s)"
  by (simp add: read_def)

lemma seq_assoc [simp]: "seq (seq m f) g = seq m (\<lambda>x. seq (f x) g)"
  by (rule ext) (simp add: seq_def split: prod.split sum.split)

lemma seq_Pair_Inr [simp]: "seq (Pair (Inr x)) f = f x"
  by (rule ext) (simp add: seq_def)

lemma seq_Pair_Inl [simp]: "seq (Pair (Inl e)) f = Pair (Inl e)"
  by (rule ext) (simp add: seq_def)

lemma seq_Inr: "m s = (Inr x, s') \<Longrightarrow> seq m f s = f x s'"
  by (simp add: seq_def)

lemma seq_Inl: "m s = (Inl e, s') \<Longrightarrow> seq m f s = (Inl e, s')"
  by (simp add: seq_def)

subsection \<open>Observations an action leaves unchanged\<close>

named_theorems keeps_intros

lemma keepsD: "keeps obs m \<Longrightarrow> obs (snd (m s)) = obs s"
  by (simp add: keeps_def)

lemma keeps_return [keeps_intros]: "keeps obs (return x)"
  by (simp add: keeps_def)

lemma keeps_raise [keeps_intros]: "keeps obs (raise e)"
  by (simp add: keeps_def)

lemma keeps_read [keeps_intros]: "keeps obs (read g)"
  by (simp add: keeps_def)

lemma keeps_lift [keeps_intros]: "keeps obs (lift r)"
  by (simp add: keeps_def lift_def)

lemma keeps_seq [keeps_intros]:
  assumes "keeps obs m" and "\<And>x. keeps obs (f x)"
  shows "keeps obs (seq m f)"
  unfolding keeps_def
proof
  fix s
  obtain r s' where ms: "m s = (r, s')" by (cases "m s")
  from assms(1) ms have s': "obs s' = obs s" by (auto simp add: keeps_def dest: spec [of _ s])
  show "obs (snd (seq m f s)) = obs s"
  proof (cases r)
    case (Inl e)
    with ms s' show ?thesis by (simp add: seq_def)
  next
    case (Inr x)
    with ms s' keepsD [OF assms(2), of x s'] show ?thesis by (simp add: seq_def)
  qed
qed

lemma keeps_except_KeyError [keeps_intros]:
  assumes "keeps obs m" and "keeps obs handler"
  shows "keeps obs (except_KeyError m handler)"
  unfolding keeps_def
proof
  fix s
  obtain r s' where ms: "m s = (r, s')" by (cases "m s")
  from assms(1) ms have s': "obs s' = obs s" by (auto simp add: keeps_def dest: spec [of _ s])
  from ms s' keepsD [OF assms(2), of s']
  show "obs (snd (except_KeyError m handler s)) = obs s"
    by (simp add: except_KeyError_def split: sum.split error.split)
qed

lemma keeps_when_do [keeps_intros]: "(b \<Longrightarrow> keeps obs m) \<Longrightarrow> keeps obs (when_do b m)"
  by (cases b) (simp_all add: keeps_return)

lemma keeps_if [keeps_intros]:
  "(b \<Longrightarrow> keeps obs m) \<Longrightarrow> (\<not> b \<Longrightarrow> keeps obs n) \<Longrightarrow> keeps obs (if b then m else n)"
  by simp

lemma keeps_case_option [keeps_intros]:
  "(x = None \<Longrightarrow> keeps obs m) \<Longrightarrow> (\<And>y. x = Some y \<Longrightarrow> keeps obs (f y)) \<Longrightarrow>
   keeps obs (case x of None \<Rightarrow> m | Some y \<Rightarrow> f y)"
  by (cases x) simp_all

lemma keeps_case_sum [keeps_intros]:
  "(\<And>a. x = Inl a \<Longrightarrow> keeps obs (f a)) \<Longrightarrow> (\<And>b. x = Inr b \<Longrightarrow> keeps obs (g b)) \<Longrightarrow>
   keeps obs (case x of Inl a \<Rightarrow> f a | Inr b \<Rightarrow> g b)"
  by (cases x) simp_all

lemma keeps_case_prod [keeps_intros]:
  "(\<And>a b. x = (a, b) \<Longrightarrow> keeps obs (f a b)) \<Longrightarrow> keeps obs (case x of (a, b) \<Rightarrow> f a b)"
  by (cases x) simp

lemma keeps_assign_class_list [keeps_intros]: "keeps SERVICE_CONFIGS_LIST (assign g)"
  by (simp add: keeps_def)

lemma keeps_call_class_list [keeps_intros]: "keeps SERVICE_CONFIGS_LIST (call ev)"
  by (simp add: keeps_def)

lemma keeps_assign_storage_calls [keeps_intros]: "keeps storage_calls (assign g)"
  by (simp add: keeps_def storage_calls_def)

lemma keeps_call_storage_calls:
  "\<not> is_storage_event ev \<Longrightarrow> keeps storage_calls (call ev)"
  by (simp add: keeps_def storage_calls_def)

lemma keeps_set_client_config_settings [keeps_intros]:
  "keeps (\<lambda>s. settings (self s)) (set_client_config k v)"
  by (simp add: keeps_def set_client_config_def)

lemma keeps_set_client_config_class_list [keeps_intros]:
  "keeps SERVICE_CONFIGS_LIST (set_client_config k v)"
  by (simp add: set_client_config_def keeps_intros)

lemma keeps_set_client_config_storage_calls [keeps_intros]:
  "keeps storage_calls (set_client_config k v)"
  by (simp add: set_client_config_def keeps_intros)

subsection \<open>Expiry, authorization, refresh\<close>

lemma access_token_expired_apply:
  "access_token_expired E s =
     (Inr (case credentials (self s) of
             None \<Rightarrow> True
           | Some c \<Rightarrow> cred_access_token_expired (current_time E) c), s)"
  by (simp add: access_token_expired_def split: option.split)

lemma ensure_http_apply:
  "ensure_http s = (Inr (refresh_transport s), s\<lparr>self := (self s)\<lparr>http := Some (refresh_transport s)\<rparr>\<rparr>)"
  by (cases "http (self s)") (simp_all add: ensure_http_def build_http_def refresh_transport_def)

text \<open>
  C3. \<open>access_token_expired\<close> answers true when no credential is held; when one is
  held it answers true exactly when the stored expiry is at or before the current time;
  and the state it returns is the state it was given.
\<close>

theorem C3_access_token_expired:
  "access_token_expired E s =
     (Inr (case credentials (self s) of
             None \<Rightarrow> True
           | Some c \<Rightarrow> token_expiry c \<le> current_time E), s)"
  by (cases "credentials (self s)")
     (simp_all add: access_token_expired_apply cred_access_token_expired_def)

text \<open>
  C4. Whenever \<open>access_token_expired\<close> is true, \<open>Authorize\<close> raises
  \<open>AuthenticationError\<close> and leaves the whole state as it was: no service handle is
  built, no transport is set, and the trace gains no \<open>BuildService\<close> call.
\<close>

theorem C4_Authorize_expired:
  "fst (access_token_expired E s) = Inr True \<Longrightarrow>
   Authorize E s =
     (Inl (AuthenticationError ''No valid credentials provided to authorize''), s)"
  by (simp add: Authorize_def seq_def access_token_expired_apply)

theorem C4_Authorize_expired_witness:
  "fst (access_token_expired demo_env (fresh_state DEFAULT_SETTINGS)) = Inr True \<and>
   Authorize demo_env (fresh_state DEFAULT_SETTINGS) =
     (Inl (AuthenticationError ''No valid credentials provided to authorize''),
      fresh_state DEFAULT_SETTINGS) \<and>
   service (self (fresh_state DEFAULT_SETTINGS)) = None \<and>
   trace (fresh_state DEFAULT_SETTINGS) = []"
  using C4_Authorize_expired [of demo_env "fresh_state DEFAULT_SETTINGS"]
  by (simp add: access_token_expired_apply fresh_state_def fresh_auth_def)

lemma Refresh_apply:
  "Refresh E s =
     (case credentials (self s) of
        None \<Rightarrow> (Inl (RefreshError ''No credential to refresh.''), s)
      | Some cr \<Rightarrow>
          if refresh_token cr = None \<and> auth_method (self s) \<noteq> Some ''service''
          then (Inl (RefreshError
                  ''No refresh_token found.Please set access_type of OAuth to offline.''), s)
          else
            (case credentials_refresh E cr (refresh_transport s) of
               Inl reason \<Rightarrow>
                 (Inl (RefreshError (''Access token refresh failed: '' @ reason)),
                  s\<lparr>self := (self s)\<lparr>http := Some (refresh_transport s)\<rparr>,
                    trace := trace s @ [CredentialsRefresh]\<rparr>)
             | Inr cr' \<Rightarrow>
                 (Inr (),
                  s\<lparr>self := (self s)\<lparr>http := Some (refresh_transport s),
                                      credentials := Some cr'\<rparr>,
                    trace := trace s @ [CredentialsRefresh]\<rparr>)))"
  by (simp add: Refresh_def seq_Inr [OF ensure_http_apply] split: option.split sum.split)



subsection \<open>The class-level list of required service fields\<close>

lemma keeps_copy_service_settings:
  "(\<And>k v. keeps obs (set_client_config k v)) \<Longrightarrow> keeps obs (copy_service_settings required)"
  by (induction required) (auto intro!: keeps_intros)

lemma LoadServiceConfigSettings_pkcs12:
  assumes "select_config (settings (self s)) configs = Inr (Some (''client_pkcs12_file_path'', v))"
  shows "SERVICE_CONFIGS_LIST (snd (LoadServiceConfigSettings s)) =
           SERVICE_CONFIGS_LIST s @ [''client_service_email'']"
    and "settings (self (snd (LoadServiceConfigSettings s))) = settings (self s)"
proof -
  let ?s1 = "s\<lparr>self := (self s)\<lparr>client_config :=
               (client_config (self s))(''client_pkcs12_file_path'' \<mapsto> v)\<rparr>,
              SERVICE_CONFIGS_LIST := SERVICE_CONFIGS_LIST s @ [''client_service_email'']\<rparr>"
  have run: "LoadServiceConfigSettings s =
               copy_service_settings (SERVICE_CONFIGS_LIST s @ [''client_service_email'']) ?s1"
    using assms
    by (simp add: LoadServiceConfigSettings_def set_client_config_def seq_def
          append_SERVICE_CONFIGS_LIST_def read_SERVICE_CONFIGS_LIST_def)
  show "SERVICE_CONFIGS_LIST (snd (LoadServiceConfigSettings s)) =
          SERVICE_CONFIGS_LIST s @ [''client_service_email'']"
    unfolding run
    by (simp add: keepsD [OF keeps_copy_service_settings [of SERVICE_CONFIGS_LIST]]
          keeps_intros)
  show "settings (self (snd (LoadServiceConfigSettings s))) = settings (self s)"
    unfolding run
    by (simp add: keepsD [OF keeps_copy_service_settings [of "\<lambda>s. settings (self s)"]]
          keeps_intros)
qed

text \<open>
  C9. When the loop of \<open>LoadServiceConfigSettings\<close> selects the PKCS12 path, the call
  appends \<open>client_service_email\<close> to the class-level list, whether or not the call
  then succeeds. The list is one per process: a second call, on the same instance or on
  any other instance \<open>b\<close> that also selects PKCS12, finds the grown list and appends
  once more.
\<close>

theorem C9_class_list_grows:
  assumes "select_config (settings (self s)) configs =
             Inr (Some (''client_pkcs12_file_path'', v))"
    and "select_config (settings b) configs = Inr (Some (''client_pkcs12_file_path'', w))"
  shows "SERVICE_CONFIGS_LIST (snd (LoadServiceConfigSettings s)) =
           SERVICE_CONFIGS_LIST s @ [''client_service_email'']
       \<and> SERVICE_CONFIGS_LIST
           (snd (LoadServiceConfigSettings (snd (LoadServiceConfigSettings s)))) =
           SERVICE_CONFIGS_LIST s @ [''client_service_email'', ''client_service_email'']
       \<and> SERVICE_CONFIGS_LIST
           (snd (LoadServiceConfigSettings ((snd (LoadServiceConfigSettings s))\<lparr>self := b\<rparr>))) =
           SERVICE_CONFIGS_LIST s @ [''client_service_email'', ''client_service_email'']"
proof -
  let ?s' = "snd (LoadServiceConfigSettings s)"
  note first = LoadServiceConfigSettings_pkcs12 [OF assms(1)]
  have again: "select_config (settings (self ?s')) configs =
                 Inr (Some (''client_pkcs12_file_path'', v))"
    using assms(1) first(2) by simp
  have other: "select_config (settings (self (?s'\<lparr>self := b\<rparr>))) configs =
                 Inr (Some (''client_pkcs12_file_path'', w))"
    using assms(2) by simp
  show ?thesis
    using first(1) LoadServiceConfigSettings_pkcs12(1) [OF again]
      LoadServiceConfigSettings_pkcs12(1) [OF other]
    by simp
qed

theorem C9_class_list_grows_witness:
  "select_config (settings (self (fresh_state p12_settings))) configs =
     Inr (Some (''client_pkcs12_file_path'', PStr ''key.p12''))
   \<and> SERVICE_CONFIGS_LIST (fresh_state p12_settings) = [''client_user_email'']
   \<and> SERVICE_CONFIGS_LIST (snd (LoadServiceConfigSettings (fresh_state p12_settings))) =
       [''client_user_email'', ''client_service_email'']
   \<and> SERVICE_CONFIGS_LIST
       (snd (LoadServiceConfigSettings
          ((snd (LoadServiceConfigSettings (fresh_state p12_settings)))
             \<lparr>self := fresh_auth p12_settings\<rparr>))) =
       [''client_user_email'', ''client_service_email'', ''client_service_email'']"
proof -
  have sel: "select_config (settings (self (fresh_state p12_settings))) configs =
               Inr (Some (''client_pkcs12_file_path'', PStr ''key.p12''))"
    by (simp add: fresh_state_def fresh_auth_def p12_settings_def configs_def
          dict_item_def dict_get_def)
  have sel': "select_config (settings (fresh_auth p12_settings)) configs =
                Inr (Some (''client_pkcs12_file_path'', PStr ''key.p12''))"
    using sel by (simp add: fresh_state_def)
  have init: "SERVICE_CONFIGS_LIST (fresh_state p12_settings) = [''client_user_email'']"
    by (simp add: fresh_state_def SERVICE_CONFIGS_LIST_initial_def)
  show ?thesis
    using C9_class_list_grows [OF sel sel'] sel init by simp
qed

subsection \<open>Saving when no credential is held\<close>

lemma credential_backend_state: "snd (credential_backend backend s) = s"
  by (simp add: credential_backend_def)

lemma SaveCredentials_resolved:
  "fst (credential_backend backend s) = Inr b \<Longrightarrow>
   SaveCredentials E backend s =
     (if b = PStr ''file'' then SaveCredentialsFile E PNone
      else if b = PStr ''dictionary'' then SaveCredentialsDictionary E
      else if b = PStr ''redis'' then SaveCredentialsRedis E
      else raise (InvalidConfigError ''Unknown save_credentials_backend'')) s"
  using credential_backend_state [of backend s]
  by (cases "credential_backend backend s") (simp add: SaveCredentials_def seq_def)

text \<open>
  C10. With no credential held, \<open>SaveCredentials\<close> raises
  \<open>InvalidCredentialsError\<close> ("No credentials to save") without touching any storage
  when the resolved backend is \<open>file\<close> or \<open>dictionary\<close>. When the resolved backend
  is \<open>redis\<close> and that storage is configured, there is no such check: \<open>put\<close> is
  called on the storage with \<open>None\<close>, and the outcome is whatever that call gives,
  never the uniform "No credentials to save" error.
\<close>

theorem C10_SaveCredentials_without_credentials:
  assumes "credentials (self s) = None"
    and "fst (credential_backend backend s) = Inr b"
  shows "(b = PStr ''file'' \<or> b = PStr ''dictionary'' \<longrightarrow>
            SaveCredentials E backend s =
              (Inl (InvalidCredentialsError ''No credentials to save''), s))
       \<and> (b = PStr ''redis'' \<and> storages (self s) ''redis'' = Some (Some st) \<longrightarrow>
            SaveCredentials E backend s =
              (case storage_put E st None of
                 Inl msg \<Rightarrow> Inl (OSError msg)
               | Inr u \<Rightarrow> Inr (),
               s\<lparr>trace := trace s @ [StoragePut st None]\<rparr>)
            \<and> fst (SaveCredentials E backend s) \<noteq>
                Inl (InvalidCredentialsError ''No credentials to save''))"
proof (intro conjI impI)
  assume "b = PStr ''file'' \<or> b = PStr ''dictionary''"
  with assms show "SaveCredentials E backend s =
      (Inl (InvalidCredentialsError ''No credentials to save''), s)"
    by (auto simp add: SaveCredentials_resolved SaveCredentialsFile_def
          SaveCredentialsDictionary_def)
next
  assume redis: "b = PStr ''redis'' \<and> storages (self s) ''redis'' = Some (Some st)"
  with assms show run: "SaveCredentials E backend s =
      (case storage_put E st None of Inl msg \<Rightarrow> Inl (OSError msg) | Inr u \<Rightarrow> Inr (),
       s\<lparr>trace := trace s @ [StoragePut st None]\<rparr>)"
    by (simp add: SaveCredentials_resolved SaveCredentialsRedis_def storages_item_def
          put_credentials_to_def split: sum.split)
  show "fst (SaveCredentials E backend s) \<noteq>
      Inl (InvalidCredentialsError ''No credentials to save'')"
    unfolding run by (simp split: sum.split)
qed

theorem C10_SaveCredentials_without_credentials_witness:
  "credentials (self redis_state) = None
   \<and> fst (credential_backend PNone redis_state) = Inr (PStr ''redis'')
   \<and> SaveCredentials demo_env PNone redis_state =
       (Inr (),
        redis_state\<lparr>trace := [StoragePut (RedisStorage (PStr ''127.0.0.1'') (PInt 6379)
                                  (PStr ''credentials'')) None]\<rparr>)
   \<and> fst (credential_backend (PStr ''file'') redis_state) = Inr (PStr ''file'')
   \<and> SaveCredentials demo_env (PStr ''file'') redis_state =
       (Inl (InvalidCredentialsError ''No credentials to save''), redis_state)"
proof -
  have none: "credentials (self redis_state) = None"
    by (simp add: redis_state_def fresh_auth_def)
  have b1: "fst (credential_backend PNone redis_state) = Inr (PStr ''redis'')"
    by (simp add: credential_backend_def redis_state_def fresh_auth_def redis_settings_def
          dict_get_def)
  have b2: "fst (credential_backend (PStr ''file'') redis_state) = Inr (PStr ''file'')"
    by (simp add: credential_backend_def)
  have st: "storages (self redis_state) ''redis'' =
      Some (Some (RedisStorage (PStr ''127.0.0.1'') (PInt 6379) (PStr ''credentials'')))"
    by (simp add: redis_state_def fresh_auth_def)
  have put: "storage_put demo_env
      (RedisStorage (PStr ''127.0.0.1'') (PInt 6379) (PStr ''credentials'')) None = Inr ()"
    by (simp add: demo_env_def)
  have tr: "trace redis_state = []"
    by (simp add: redis_state_def)
  show ?thesis
    using C10_SaveCredentials_without_credentials [where E = demo_env and st =
        "RedisStorage (PStr ''127.0.0.1'') (PInt 6379) (PStr ''credentials'')", OF none b1]
      C10_SaveCredentials_without_credentials [where E = demo_env and st =
        "RedisStorage (PStr ''127.0.0.1'') (PInt 6379) (PStr ''credentials'')", OF none b2]
      none b1 b2 st put tr
    by simp
qed

subsection \<open>The local web server variant\<close>

lemma bind_ports_none:
  "find (can_bind E addr) ports = None \<Longrightarrow>
   bind_ports E addr ports pn s =
     (Inr (False, last (pn # ports)), s\<lparr>trace := trace s @ map (BindServer addr) ports\<rparr>)"
  by (induction ports arbitrary: pn s) (simp_all split: if_splits)

lemma bind_ports_some:
  "find (can_bind E addr) ports = Some port \<Longrightarrow>
   bind_ports E addr ports pn s =
     (Inr (True, port),
      s\<lparr>trace := trace s @ map (BindServer addr)
                   (takeWhile (\<lambda>p. \<not> can_bind E addr p) ports @ [port])\<rparr>)"
  by (induction ports arbitrary: pn s) (simp_all split: if_splits)

lemma LocalWebserverAuth_body_unbound:
  "find (can_bind E (bind_address bind_addr host_name)) (candidate_ports port_numbers) = None \<Longrightarrow>
   LocalWebserverAuth_body E host_name port_numbers launch_browser bind_addr s =
     (Inl (AuthenticationError []),
      s\<lparr>trace := trace s @ map (BindServer (bind_address bind_addr host_name))
                   (candidate_ports port_numbers)\<rparr>)"
  by (simp add: LocalWebserverAuth_body_def seq_Inr [OF bind_ports_none])

lemma LocalWebserverAuth_body_bound:
  assumes "find (can_bind E (bind_address bind_addr host_name)) (candidate_ports port_numbers)
             = Some port"
    and "flow (self s) = Some fl"
  shows "fst (LocalWebserverAuth_body E host_name port_numbers launch_browser bind_addr s) =
           (if map_of (query_params E port) ''error'' \<noteq> None
            then Inl (AuthenticationRejected ''User rejected authentication'')
            else case map_of (query_params E port) ''code'' of
                   Some code \<Rightarrow> Inr code
                 | None \<Rightarrow> Inl (AuthenticationError ''No code found in redirect''))"
    and "filter is_HandleRequest
           (trace (snd (LocalWebserverAuth_body E host_name port_numbers launch_browser
                          bind_addr s))) =
         filter is_HandleRequest (trace s) @ [HandleRequest port]"
  using assms(2)
  by (simp_all add: LocalWebserverAuth_body_def seq_Inr [OF bind_ports_some [OF assms(1)]]
        update_flow_def GetAuthUrl_def ensure_flow_def when_do_def split: option.split)

text \<open>
  C6. The function wrapped as \<open>LocalWebserverAuth\<close>: when none of the candidate ports
  can be bound it raises \<open>AuthenticationError\<close> and serves no request. When a port is
  bound (and the flow exists, as the wrapper ensures), it serves exactly one redirect
  request on that port; then, in the order of the source, it raises
  \<open>AuthenticationRejected\<close> when the query parameters contain \<open>error\<close>, otherwise
  returns the value of \<open>code\<close> when that is present, and otherwise raises
  \<open>AuthenticationError\<close>.
\<close>

theorem C6_LocalWebserverAuth_body:
  "(find (can_bind E (bind_address bind_addr host_name)) (candidate_ports port_numbers) = None
      \<longrightarrow> fst (LocalWebserverAuth_body E host_name port_numbers launch_browser bind_addr s) =
            Inl (AuthenticationError [])
        \<and> filter is_HandleRequest
            (trace (snd (LocalWebserverAuth_body E host_name port_numbers launch_browser
                           bind_addr s))) =
            filter is_HandleRequest (trace s))
   \<and> (\<forall>port fl.
         find (can_bind E (bind_address bind_addr host_name)) (candidate_ports port_numbers)
           = Some port
         \<and> flow (self s) = Some fl
         \<longrightarrow> filter is_HandleRequest
               (trace (snd (LocalWebserverAuth_body E host_name port_numbers launch_browser
                              bind_addr s))) =
               filter is_HandleRequest (trace s) @ [HandleRequest port]
           \<and> (map_of (query_params E port) ''error'' \<noteq> None
                \<longrightarrow> fst (LocalWebserverAuth_body E host_name port_numbers launch_browser
                           bind_addr s) =
                      Inl (AuthenticationRejected ''User rejected authentication''))
           \<and> (\<forall>code. map_of (query_params E port) ''error'' = None
                      \<and> map_of (query_params E port) ''code'' = Some code
                \<longrightarrow> fst (LocalWebserverAuth_body E host_name port_numbers launch_browser
                           bind_addr s) = Inr code)
           \<and> (map_of (query_params E port) ''error'' = None
                \<and> map_of (query_params E port) ''code'' = None
                \<longrightarrow> fst (LocalWebserverAuth_body E host_name port_numbers launch_browser
                           bind_addr s) =
                      Inl (AuthenticationError ''No code found in redirect'')))"
proof (intro conjI impI allI)
  assume "find (can_bind E (bind_address bind_addr host_name)) (candidate_ports port_numbers)
            = None"
  note run = LocalWebserverAuth_body_unbound [OF this]
  show "fst (LocalWebserverAuth_body E host_name port_numbers launch_browser bind_addr s) =
          Inl (AuthenticationError [])"
    by (simp add: run)
  show "filter is_HandleRequest
          (trace (snd (LocalWebserverAuth_body E host_name port_numbers launch_browser
                         bind_addr s))) =
        filter is_HandleRequest (trace s)"
    by (simp add: run)
next
  fix port fl
  assume "find (can_bind E (bind_address bind_addr host_name)) (candidate_ports port_numbers)
            = Some port \<and> flow (self s) = Some fl"
  then have b: "find (can_bind E (bind_address bind_addr host_name))
                  (candidate_ports port_numbers) = Some port"
    and f: "flow (self s) = Some fl" by simp_all
  note run = LocalWebserverAuth_body_bound [OF b f]
  show "filter is_HandleRequest
          (trace (snd (LocalWebserverAuth_body E host_name port_numbers launch_browser
                         bind_addr s))) =
        filter is_HandleRequest (trace s) @ [HandleRequest port]"
    by (rule run(2))
  {
    assume "map_of (query_params E port) ''error'' \<noteq> None"
    then show "fst (LocalWebserverAuth_body E host_name port_numbers launch_browser
                      bind_addr s) =
               Inl (AuthenticationRejected ''User rejected authentication'')"
      by (simp add: run(1))
  }
  {
    fix code
    assume "map_of (query_params E port) ''error'' = None
              \<and> map_of (query_params E port) ''code'' = Some code"
    then show "fst (LocalWebserverAuth_body E host_name port_numbers launch_browser
                      bind_addr s) = Inr code"
      by (simp add: run(1))
  }
  {
    assume "map_of (query_params E port) ''error'' = None
              \<and> map_of (query_params E port) ''code'' = None"
    then show "fst (LocalWebserverAuth_body E host_name port_numbers launch_browser
                      bind_addr s) =
               Inl (AuthenticationError ''No code found in redirect'')"
      by (simp add: run(1))
  }
qed

theorem C6_LocalWebserverAuth_body_witness:
  "find (can_bind demo_env (bind_address None ''localhost'')) (candidate_ports None) = Some 8090
   \<and> flow (self flow_state) = Some demo_flow
   \<and> map_of (query_params demo_env 8090) ''error'' = None
   \<and> map_of (query_params demo_env 8090) ''code'' = Some (PStr ''abc123'')
   \<and> fst (LocalWebserverAuth_body demo_env ''localhost'' None True None flow_state) =
       Inr (PStr ''abc123'')
   \<and> filter is_HandleRequest
       (trace (snd (LocalWebserverAuth_body demo_env ''localhost'' None True None flow_state))) =
       [HandleRequest 8090]
   \<and> find (can_bind demo_env (bind_address None ''localhost'')) (candidate_ports (Some [9000]))
       = None
   \<and> fst (LocalWebserverAuth_body demo_env ''localhost'' (Some [9000]) True None flow_state) =
       Inl (AuthenticationError [])
   \<and> map_of (query_params
               (demo_env\<lparr>query_params := \<lambda>port. [(''error'', PStr ''access_denied'')]\<rparr>) 8090)
        ''error'' \<noteq> None
   \<and> fst (LocalWebserverAuth_body
            (demo_env\<lparr>query_params := \<lambda>port. [(''error'', PStr ''access_denied'')]\<rparr>)
            ''localhost'' None True None flow_state) =
       Inl (AuthenticationRejected ''User rejected authentication'')"
  using C6_LocalWebserverAuth_body
          [of demo_env None "''localhost''" None True flow_state]
        C6_LocalWebserverAuth_body
          [of demo_env None "''localhost''" "Some [9000]" True flow_state]
        C6_LocalWebserverAuth_body
          [of "demo_env\<lparr>query_params := \<lambda>port. [(''error'', PStr ''access_denied'')]\<rparr>"
              None "''localhost''" None True flow_state]
  by (simp add: demo_env_def bind_address_def candidate_ports_def flow_state_def)

subsection \<open>The client-secrets file loader\<close>

lemma fst_seq:
  "fst (seq m f s) = (case fst (m s) of Inl e \<Rightarrow> Inl e | Inr x \<Rightarrow> fst (f x (snd (m s))))"
  by (cases "m s") (simp add: seq_def split: sum.split)

lemma fst_except_KeyError_raise:
  "fst (except_KeyError m (raise e) s) =
     (case fst (m s) of Inl (KeyError k) \<Rightarrow> Inl e | r \<Rightarrow> r)"
  by (cases "m s") (simp add: except_KeyError_def split: sum.split error.split)

lemma fst_except_KeyError_return:
  "fst (except_KeyError m (return x) s) =
     (case fst (m s) of Inl (KeyError k) \<Rightarrow> Inr x | r \<Rightarrow> r)"
  by (cases "m s") (simp add: except_KeyError_def split: sum.split error.split)

lemma fst_copy_client_info_then:
  "fst (seq (copy_client_info info ks) f s) =
     (case find (\<lambda>k. map_of info k = None) ks of
        Some k \<Rightarrow> Inl (KeyError k)
      | None \<Rightarrow> fst (f () (snd (copy_client_info info ks s))))"
proof (induction ks arbitrary: s f)
  case Nil
  then show ?case by simp
next
  case (Cons k ks)
  show ?case
  proof (cases "map_of info k")
    case None
    then show ?thesis by (simp add: dict_item_def)
  next
    case (Some v)
    have step: "copy_client_info info (k # ks) s =
        copy_client_info info ks
          (s\<lparr>self := (self s)\<lparr>client_config := (client_config (self s))(k \<mapsto> v)\<rparr>\<rparr>)"
      using Some by (simp add: dict_item_def set_client_config_def)
    have step': "seq (copy_client_info info (k # ks)) f s =
        seq (copy_client_info info ks) f
          (s\<lparr>self := (self s)\<lparr>client_config := (client_config (self s))(k \<mapsto> v)\<rparr>\<rparr>)"
      unfolding seq_def [of "copy_client_info info (k # ks)"] step
      by (simp add: seq_def)
    show ?thesis
      unfolding step step' using Some by (simp add: Cons.IH)
  qed
qed

lemma fst_copy_client_info:
  "fst (copy_client_info info ks s) =
     (case find (\<lambda>k. map_of info k = None) ks of
        Some k \<Rightarrow> Inl (KeyError k)
      | None \<Rightarrow> Inr ())"
proof -
  have "fst (copy_client_info info ks s) = fst (seq (copy_client_info info ks) return s)"
    by (cases "copy_client_info info ks s") (simp add: seq_def split: sum.split)
  also have "\<dots> = (case find (\<lambda>k. map_of info k = None) ks of
        Some k \<Rightarrow> Inl (KeyError k)
      | None \<Rightarrow> Inr ())"
    unfolding fst_copy_client_info_then by (simp split: option.split)
  finally show ?thesis .
qed

lemma general_settings_block:
  "fst (seq (copy_client_info info ks) (\<lambda>_.
        seq (set_client_config ''revoke_uri'' rv) (\<lambda>_.
        seq (lift (dict_item (map_of info) ''redirect_uris'')) (\<lambda>uris.
        seq (lift (val_first uris)) (\<lambda>uri.
        set_client_config ''redirect_uri'' uri)))) s) =
     (case find (\<lambda>k. map_of info k = None) ks of
        Some k \<Rightarrow> Inl (KeyError k)
      | None \<Rightarrow>
          (case map_of info ''redirect_uris'' of
             None \<Rightarrow> Inl (KeyError ''redirect_uris'')
           | Some uris \<Rightarrow> (case val_first uris of Inl e \<Rightarrow> Inl e | Inr u \<Rightarrow> Inr ())))"
proof -
  have rest: "fst (seq (set_client_config ''revoke_uri'' rv) (\<lambda>_.
        seq (lift (dict_item (map_of info) ''redirect_uris'')) (\<lambda>uris.
        seq (lift (val_first uris)) (\<lambda>uri.
        set_client_config ''redirect_uri'' uri))) t) =
      (case map_of info ''redirect_uris'' of
             None \<Rightarrow> Inl (KeyError ''redirect_uris'')
           | Some uris \<Rightarrow> (case val_first uris of Inl e \<Rightarrow> Inl e | Inr u \<Rightarrow> Inr ()))" for t
  proof (cases "map_of info ''redirect_uris''")
    case None
    then show ?thesis by (simp add: set_client_config_def dict_item_def)
  next
    case (Some uris)
    then show ?thesis
      by (cases "val_first uris") (simp_all add: set_client_config_def dict_item_def)
  qed
  show ?thesis
    unfolding fst_copy_client_info_then rest ..
qed

lemma service_fields_block:
  "fst (except_KeyError (copy_client_info info ks) (return ()) t) = Inr ()"
  unfolding fst_except_KeyError_return fst_copy_client_info
  by (simp split: option.split)

text \<open>
  What \<open>LoadClientConfigFile\<close> answers for every file that
  \<open>clientsecrets.loadfile\<close> hands over: an unknown client type and a missing key
  among the five required ones give \<open>InvalidConfigError\<close>; a missing
  \<open>revoke_uri\<close> or \<open>client_email\<close> is no error; but \<open>redirect_uris[0]\<close> can
  fail with an error other than \<open>KeyError\<close>, which the handler of line 655 does not
  catch.
\<close>

lemma LoadClientConfigFile_result:
  assumes "file \<noteq> PNone" and "loadfile E file = Inr (client_type, info)"
  shows "fst (LoadClientConfigFile E file s) =
     (if client_type \<notin> set [''web'', ''installed'']
      then Inl (InvalidConfigError ''Unknown client_type of client config file'')
      else
        (case find (\<lambda>k. map_of info k = None)
                [''client_id'', ''client_secret'', ''auth_uri'', ''token_uri''] of
           Some k \<Rightarrow> Inl (InvalidConfigError ''Insufficient client config in file'')
         | None \<Rightarrow>
            (case map_of info ''redirect_uris'' of
               None \<Rightarrow> Inl (InvalidConfigError ''Insufficient client config in file'')
             | Some uris \<Rightarrow>
                 (case val_first uris of
                    Inl (KeyError k) \<Rightarrow>
                      Inl (InvalidConfigError ''Insufficient client config in file'')
                  | Inl e \<Rightarrow> Inl e
                  | Inr u \<Rightarrow> Inr ()))))"
proof (cases "client_type \<in> set [''web'', ''installed'']")
  case False
  with assms show ?thesis
    by (simp add: LoadClientConfigFile_def)
next
  case True
  let ?t = "s\<lparr>trace := trace s @ [LoadFile file]\<rparr>"
  let ?B1 = "seq (copy_client_info info
                          [''client_id'', ''client_secret'', ''auth_uri'', ''token_uri'']) (\<lambda>_.
                    seq (set_client_config ''revoke_uri''
                          (dict_get (map_of info) ''revoke_uri'')) (\<lambda>_.
                    seq (lift (dict_item (map_of info) ''redirect_uris'')) (\<lambda>uris.
                    seq (lift (val_first uris)) (\<lambda>uri.
                    set_client_config ''redirect_uri'' uri))))"
  let ?rest = "seq (except_KeyError ?B1
                   (raise (InvalidConfigError ''Insufficient client config in file''))) (\<lambda>_.
             except_KeyError
               (copy_client_info info [''client_email''])
               (return ()))"
  have run: "LoadClientConfigFile E file s = ?rest ?t"
    using assms True
    by (simp add: LoadClientConfigFile_def del: seq_assoc copy_client_info.simps list.set)
  have "fst (?rest ?t) =
      (case fst (?B1 ?t) of
         Inl (KeyError k) \<Rightarrow> Inl (InvalidConfigError ''Insufficient client config in file'')
       | Inl e \<Rightarrow> Inl e
       | Inr u \<Rightarrow> Inr ())"
    unfolding fst_seq [of "except_KeyError ?B1 _"] fst_except_KeyError_raise service_fields_block
    by (simp split: sum.split error.split)
  then show ?thesis
    unfolding run general_settings_block using True
    by (simp split: option.split sum.split error.split del: find.simps list.set)
qed

lemma LoadClientConfigFile_invalid_secrets:
  "file \<noteq> PNone \<Longrightarrow> loadfile E file = Inl err \<Longrightarrow>
   fst (LoadClientConfigFile E file s) =
     Inl (InvalidConfigError (''Invalid client secrets file '' @ err))"
  by (simp add: LoadClientConfigFile_def)

text \<open>
  C8. The claim holds for an unknown client type and for a missing key (the lemma
  above), and a missing \<open>revoke_uri\<close> or \<open>client_email\<close> is accepted. It fails for
  a file that has the key \<open>redirect_uris\<close> but not one redirect URI in it: the loader
  then raises \<open>IndexError\<close>, not \<open>InvalidConfigError\<close>, while the same file without
  the key gets the \<open>InvalidConfigError\<close> the claim and the docstring promise.
\<close>

theorem C8_empty_redirect_uris:
  "fst (LoadClientConfigFile (file_env empty_redirect_uris_file) (PStr ''client_secrets.json'')
          (fresh_state DEFAULT_SETTINGS)) = Inl IndexError
   \<and> fst (LoadClientConfigFile (file_env no_redirect_uris_file) (PStr ''client_secrets.json'')
          (fresh_state DEFAULT_SETTINGS)) =
       Inl (InvalidConfigError ''Insufficient client config in file'')"
proof -
  have a: "loadfile (file_env empty_redirect_uris_file) (PStr ''client_secrets.json'') =
             Inr (''web'', empty_redirect_uris_file)"
    and b: "loadfile (file_env no_redirect_uris_file) (PStr ''client_secrets.json'') =
             Inr (''web'', no_redirect_uris_file)"
    by (simp_all add: file_env_def demo_env_def)
  have ne: "PStr ''client_secrets.json'' \<noteq> PNone" by simp
  show ?thesis
    unfolding LoadClientConfigFile_result [OF ne a] LoadClientConfigFile_result [OF ne b]
    by (simp add: empty_redirect_uris_file_def no_redirect_uris_file_def)
qed

subsection \<open>The device variant\<close>

text \<open>
  When the client id is missing and the scope setting can be converted, the function
  wrapped as \<open>DeviceAuth\<close> raises \<open>InvalidConfigError\<close> and the trace is as it
  was: nothing was requested from the network.
\<close>

lemma DeviceAuth_body_client_id_missing:
  assumes "flow (self s) = Some fl"
    and "dict_get (client_config (self s)) ''client_id'' = PNone"
    and "scopes_to_string (dict_get (settings (self s)) ''oauth_scope'') = Inr scope"
  shows "DeviceAuth_body E s =
     (Inl (InvalidConfigError ''client_id is required for Device Authentication''),
      s\<lparr>self := (self s)\<lparr>flow := Some (fl\<lparr>flow_client_id := PNone,
                                            flow_scope := PStr scope\<rparr>)\<rparr>\<rparr>)"
  using assms by (simp add: DeviceAuth_body_def update_flow_def)

text \<open>
  When the scope conversion fails, its error is what the function raises; the checks of
  lines 318--325 are not reached.
\<close>

lemma DeviceAuth_body_scope_fails:
  assumes "flow (self s) = Some fl"
    and "scopes_to_string (dict_get (settings (self s)) ''oauth_scope'') = Inl e"
  shows "DeviceAuth_body E s =
     (Inl e, s\<lparr>self := (self s)\<lparr>flow := Some (fl\<lparr>flow_client_id :=
                  dict_get (client_config (self s)) ''client_id''\<rparr>)\<rparr>\<rparr>)"
  using assms by (simp add: DeviceAuth_body_def update_flow_def)

text \<open>
  The conversion never answers \<open>None\<close>, so the check of line 322 cannot fire: the
  function never raises the error that asks for \<open>oauth_scope\<close>.
\<close>

lemma scopes_to_string_error: "scopes_to_string v = Inl e \<Longrightarrow> e = TypeError"
  by (cases v) (auto split: option.splits)

lemma DeviceAuth_body_scope_check_dead:
  "fst (DeviceAuth_body E s) \<noteq>
     Inl (InvalidConfigError ''oauth_scope is required for Device Authentication'')"
proof (cases "flow (self s)")
  case None
  then show ?thesis by (simp add: DeviceAuth_body_def update_flow_def)
next
  case (Some fl)
  show ?thesis
  proof (cases "scopes_to_string (dict_get (settings (self s)) ''oauth_scope'')")
    case (Inl e)
    with scopes_to_string_error [OF Inl] Some show ?thesis
      by (simp add: DeviceAuth_body_scope_fails [OF Some Inl])
  next
    case (Inr scope)
    with Some show ?thesis
      by (simp add: DeviceAuth_body_def update_flow_def GetDeviceCode_def ensure_flow_def
            the_flow_def dict_item_def split: prod.split option.split)
  qed
qed

text \<open>
  C7. With a client id that cannot be resolved and the default settings, the device
  variant raises \<open>InvalidConfigError\<close>, which is not an \<open>AuthError\<close>, before any
  network call, as claimed. With \<open>oauth_scope\<close> absent from the settings it raises
  \<open>TypeError\<close> instead: \<open>scopes_to_string\<close> is applied to \<open>None\<close> at line 317,
  before the check of line 322 that would raise the
  "oauth_scope is required for Device Authentication" error. No network call is made in
  either case.
\<close>

theorem C7_oauth_scope_absent:
  "dict_get (settings (self no_scope_state)) ''oauth_scope'' = PNone
   \<and> fst (DeviceAuth_body demo_env no_scope_state) = Inl TypeError
   \<and> trace (snd (DeviceAuth_body demo_env no_scope_state)) = []
   \<and> dict_get (client_config (self flow_state)) ''client_id'' = PNone
   \<and> fst (DeviceAuth_body demo_env flow_state) =
       Inl (InvalidConfigError ''client_id is required for Device Authentication'')
   \<and> \<not> is_AuthError (InvalidConfigError ''client_id is required for Device Authentication'')
   \<and> trace (snd (DeviceAuth_body demo_env flow_state)) = []"
proof -
  have f1: "flow (self no_scope_state) = Some demo_flow"
    and n1: "dict_get (settings (self no_scope_state)) ''oauth_scope'' = PNone"
    and t1: "trace no_scope_state = []"
    by (simp_all add: no_scope_state_def fresh_auth_def dict_get_def)
  have e1: "scopes_to_string (dict_get (settings (self no_scope_state)) ''oauth_scope'') =
              Inl TypeError"
    by (simp add: n1)
  have f2: "flow (self flow_state) = Some demo_flow"
    and c2: "dict_get (client_config (self flow_state)) ''client_id'' = PNone"
    and t2: "trace flow_state = []"
    by (simp_all add: flow_state_def fresh_auth_def dict_get_def)
  have s2: "scopes_to_string (dict_get (settings (self flow_state)) ''oauth_scope'') =
              Inr ''https://www.googleapis.com/auth/drive''"
    by (simp add: flow_state_def fresh_auth_def DEFAULT_SETTINGS_def dict_get_def)
  show ?thesis
    unfolding DeviceAuth_body_scope_fails [OF f1 e1]
      DeviceAuth_body_client_id_missing [OF f2 c2 s2]
    using n1 c2 t1 t2 by simp
qed

subsection \<open>Key material of a service account\<close>

lemma keeps_set_client_config_trace: "keeps trace (set_client_config k v)"
  by (simp add: keeps_def set_client_config_def)

lemma keeps_set_client_config_other:
  "k \<noteq> k' \<Longrightarrow> keeps (\<lambda>s. client_config (self s) k) (set_client_config k' v)"
  by (simp add: keeps_def set_client_config_def)

lemma keeps_copy_service_settings_other:
  "k \<notin> set required \<Longrightarrow>
   keeps (\<lambda>s. client_config (self s) k) (copy_service_settings required)"
  by (induction required) (auto intro!: keeps_intros keeps_set_client_config_other)

lemma copy_service_settings_succeeds:
  "settings (self t) ''service_config'' = Some (PDict kvs) \<Longrightarrow>
   list_all (\<lambda>k. map_of kvs k \<noteq> None) required \<Longrightarrow>
   fst (copy_service_settings required t) = Inr ()"
proof (induction required arbitrary: t)
  case Nil
  then show ?case by simp
next
  case (Cons k ks)
  from Cons.prems(2) obtain v where v: "map_of kvs k = Some v" by auto
  let ?t = "t\<lparr>self := (self t)\<lparr>client_config := (client_config (self t))(k \<mapsto> v)\<rparr>\<rparr>"
  have one: "except_KeyError
           (seq (read settings) (\<lambda>st.
            seq (lift (dict_item st ''service_config'')) (\<lambda>sc.
            seq (lift (val_item sc k)) (\<lambda>v.
            set_client_config k v))))
           (raise (InvalidConfigError
              (''Insufficient service config in settings'' @ [CHR 0x0A, CHR 0x0A] @
               ''Missing: '' @ k @ '' key.''))) t = (Inr (), ?t)"
    using Cons.prems(1) v
    by (simp add: except_KeyError_def dict_item_def set_client_config_def)
  have "copy_service_settings (k # ks) t = copy_service_settings ks ?t"
    by (simp only: copy_service_settings.simps seq_def one prod.case sum.case)
  moreover have "fst (copy_service_settings ks ?t) = Inr ()"
    using Cons.prems by (intro Cons.IH) simp_all
  ultimately show ?case by simp
qed


lemma select_config_file_first:
  "settings (self s) ''service_config'' = Some (PDict kvs) \<Longrightarrow>
   map_of kvs ''client_json_file_path'' = Some path \<Longrightarrow> truthy path \<Longrightarrow>
   select_config (settings (self s)) configs = Inr (Some (''client_json_file_path'', path))"
  by (simp add: configs_def dict_item_def dict_get_def)

lemma LoadServiceConfigSettings_file:
  assumes sc: "settings (self s) ''service_config'' = Some (PDict kvs)"
    and path: "map_of kvs ''client_json_file_path'' = Some path" "truthy path"
  shows "LoadServiceConfigSettings s =
           copy_service_settings (SERVICE_CONFIGS_LIST s)
             (s\<lparr>self := (self s)\<lparr>client_config :=
                (client_config (self s))(''client_json_file_path'' \<mapsto> path)\<rparr>\<rparr>)"
  using select_config_file_first [OF sc path]
  by (simp add: LoadServiceConfigSettings_def set_client_config_def seq_def
        read_SERVICE_CONFIGS_LIST_def)

lemma service_credentials_from_dict:
  assumes "settings (self t) ''oauth_scope'' = Some oauth_scope"
    and "scopes_to_string oauth_scope = Inr scopes"
    and "truthy (dict_get (client_config (self t)) ''client_json_dict'')"
  shows "fst (service_credentials E t) = Inr ()"
    and "trace (snd (service_credentials E t)) =
           trace t @ [KeyfileDict (dict_get (client_config (self t)) ''client_json_dict'') scopes]"
  using assms
  by (simp_all add: service_credentials_def dict_item_def when_do_def)

lemma service_credentials_from_file:
  assumes "settings (self t) ''oauth_scope'' = Some oauth_scope"
    and "scopes_to_string oauth_scope = Inr scopes"
    and "client_config (self t) ''client_json_dict'' = None"
    and "client_config (self t) ''client_json'' = None"
    and "client_config (self t) ''client_json_file_path'' = Some path"
    and "truthy path"
  shows "fst (service_credentials E t) = Inr ()"
    and "trace (snd (service_credentials E t)) = trace t @ [KeyfileName path scopes]"
  using assms
  by (simp_all add: service_credentials_def dict_item_def dict_get_def when_do_def)


lemma ServiceAuth_body_loaded:
  "list_all (\<lambda>k. client_config (self s) k \<noteq> None) (SERVICE_CONFIGS_LIST s) \<Longrightarrow>
   ServiceAuth_body E s = service_credentials E s"
proof -
  assume "list_all (\<lambda>k. client_config (self s) k \<noteq> None) (SERVICE_CONFIGS_LIST s)"
  then have "\<not> list_ex (\<lambda>config. client_config (self s) config = None) (SERVICE_CONFIGS_LIST s)"
    by (auto simp add: list_ex_iff list_all_iff)
  then show ?thesis
    by (simp add: ServiceAuth_body_def read_SERVICE_CONFIGS_LIST_def seq_def)
qed

lemma ServiceAuth_body_from_settings_file:
  assumes empty: "client_config (self s) = Map.empty"
    and req: "SERVICE_CONFIGS_LIST s \<noteq> []"
      "set (SERVICE_CONFIGS_LIST s) \<subseteq> {''client_user_email'', ''client_service_email''}"
    and sc: "settings (self s) ''service_config'' = Some (PDict kvs)"
    and path: "map_of kvs ''client_json_file_path'' = Some path" "truthy path"
    and present: "list_all (\<lambda>k. map_of kvs k \<noteq> None) (SERVICE_CONFIGS_LIST s)"
    and scope: "settings (self s) ''oauth_scope'' = Some oauth_scope"
      "scopes_to_string oauth_scope = Inr scopes"
  shows "fst (ServiceAuth_body E s) = Inr ()"
    and "trace (snd (ServiceAuth_body E s)) = trace s @ [KeyfileName path scopes]"
proof -
  let ?L = "SERVICE_CONFIGS_LIST s"
  let ?s1 = "s\<lparr>self := (self s)\<lparr>client_config :=
                (client_config (self s))(''client_json_file_path'' \<mapsto> path)\<rparr>\<rparr>"
  have load: "LoadServiceConfigSettings s = copy_service_settings ?L ?s1"
    by (rule LoadServiceConfigSettings_file [OF sc path])
  have ok: "fst (copy_service_settings ?L ?s1) = Inr ()"
    using sc present by (intro copy_service_settings_succeeds [where kvs = kvs]) simp_all
  then obtain t where run: "copy_service_settings ?L ?s1 = (Inr (), t)"
    by (cases "copy_service_settings ?L ?s1") simp
  have reload: "list_ex (\<lambda>config. client_config (self s) config = None) ?L"
    using req(1) empty by (cases ?L) simp_all
  have body: "ServiceAuth_body E s = service_credentials E t"
    using reload
    by (simp add: ServiceAuth_body_def read_SERVICE_CONFIGS_LIST_def seq_def load run)
  have tr: "trace t = trace s"
    using keepsD [OF keeps_copy_service_settings [of trace ?L], of ?s1]
    by (simp add: keeps_set_client_config_trace run)
  have st: "settings (self t) = settings (self s)"
    using keepsD [OF keeps_copy_service_settings [of "\<lambda>s. settings (self s)" ?L], of ?s1]
    by (simp add: keeps_intros run)
  have other: "client_config (self t) k = client_config (self ?s1) k" if "k \<notin> set ?L" for k
    using keepsD [OF keeps_copy_service_settings_other [OF that], of ?s1] by (simp add: run)
  have d: "client_config (self t) ''client_json_dict'' = None"
    and j: "client_config (self t) ''client_json'' = None"
    and f: "client_config (self t) ''client_json_file_path'' = Some path"
  proof -
    have "''client_json_dict'' \<notin> set ?L" "''client_json'' \<notin> set ?L"
      "''client_json_file_path'' \<notin> set ?L"
      using req(2) by auto
    then show "client_config (self t) ''client_json_dict'' = None"
      and "client_config (self t) ''client_json'' = None"
      and "client_config (self t) ''client_json_file_path'' = Some path"
      using empty by (simp_all add: other)
  qed
  show "fst (ServiceAuth_body E s) = Inr ()"
    unfolding body using scope
    by (intro service_credentials_from_file(1) [OF _ _ d j f path(2)]) (simp_all add: st)
  show "trace (snd (ServiceAuth_body E s)) = trace s @ [KeyfileName path scopes]"
    unfolding body using scope
    by (simp add: service_credentials_from_file(2) [OF _ _ d j f path(2)] st tr)
qed

lemma ServiceAuth_body_from_dict:
  assumes "list_all (\<lambda>k. client_config (self s) k \<noteq> None) (SERVICE_CONFIGS_LIST s)"
    and "settings (self s) ''oauth_scope'' = Some oauth_scope"
    and "scopes_to_string oauth_scope = Inr scopes"
    and "truthy (dict_get (client_config (self s)) ''client_json_dict'')"
  shows "fst (ServiceAuth_body E s) = Inr ()"
    and "trace (snd (ServiceAuth_body E s)) =
           trace s @ [KeyfileDict (dict_get (client_config (self s)) ''client_json_dict'') scopes]"
  unfolding ServiceAuth_body_loaded [OF assms(1)]
  by (rule service_credentials_from_dict [OF assms(2-4)])+




subsection \<open>No storage access unless saving is enabled\<close>

lemma keeps_Pair [keeps_intros]: "keeps obs (Pair r)"
  by (simp add: keeps_def)

lemma keeps_read_class_list [keeps_intros]: "keeps obs read_SERVICE_CONFIGS_LIST"
  by (simp add: keeps_def read_SERVICE_CONFIGS_LIST_def)

lemma keeps_append_class_list_storage [keeps_intros]:
  "keeps storage_calls (append_SERVICE_CONFIGS_LIST x)"
  by (simp add: keeps_def append_SERVICE_CONFIGS_LIST_def storage_calls_def)

lemma quiet_access_token_expired [keeps_intros]: "keeps storage_calls (access_token_expired E)"
  unfolding access_token_expired_def by (intro keeps_intros keeps_call_storage_calls)

lemma quiet_ensure_http [keeps_intros]: "keeps storage_calls ensure_http"
  unfolding ensure_http_def build_http_def by (intro keeps_intros keeps_call_storage_calls)

lemma quiet_Authorize [keeps_intros]: "keeps storage_calls (Authorize E)"
  unfolding Authorize_def by (intro keeps_intros keeps_call_storage_calls; simp)

lemma quiet_Refresh [keeps_intros]: "keeps storage_calls (Refresh E)"
  unfolding Refresh_def by (intro keeps_intros keeps_call_storage_calls; simp)

lemma quiet_copy_client_info [keeps_intros]:
  "keeps storage_calls (copy_client_info info ks)"
  by (induction ks) (auto intro!: keeps_intros keeps_call_storage_calls)

lemma quiet_LoadClientConfigFile [keeps_intros]:
  "keeps storage_calls (LoadClientConfigFile E file)"
  unfolding LoadClientConfigFile_def by (intro keeps_intros keeps_call_storage_calls; simp)

lemma quiet_copy_client_settings [keeps_intros]:
  "keeps storage_calls (copy_client_settings ks)"
  by (induction ks) (auto intro!: keeps_intros keeps_call_storage_calls)

lemma quiet_LoadClientConfigSettings [keeps_intros]:
  "keeps storage_calls LoadClientConfigSettings"
  unfolding LoadClientConfigSettings_def by (intro keeps_intros keeps_call_storage_calls)

lemma quiet_LoadServiceConfigSettings [keeps_intros]:
  "keeps storage_calls LoadServiceConfigSettings"
  unfolding LoadServiceConfigSettings_def
  by (intro keeps_intros keeps_copy_service_settings)

lemma quiet_LoadClientConfig [keeps_intros]:
  "keeps storage_calls (LoadClientConfig E backend)"
  unfolding LoadClientConfig_def by (intro keeps_intros keeps_call_storage_calls)

lemma quiet_GetFlow [keeps_intros]: "keeps storage_calls (GetFlow E)"
  unfolding GetFlow_def by (intro keeps_intros keeps_call_storage_calls)

lemma quiet_ensure_flow [keeps_intros]: "keeps storage_calls (ensure_flow E)"
  unfolding ensure_flow_def by (intro keeps_intros keeps_call_storage_calls)

lemma quiet_GetDeviceCode [keeps_intros]: "keeps storage_calls (GetDeviceCode E)"
  unfolding GetDeviceCode_def by (intro keeps_intros keeps_call_storage_calls; simp)

lemma quiet_GetAuthUrl [keeps_intros]: "keeps storage_calls (GetAuthUrl E)"
  unfolding GetAuthUrl_def by (intro keeps_intros keeps_call_storage_calls)

lemma quiet_Authenticate [keeps_intros]: "keeps storage_calls (Authenticate E code)"
  unfolding Authenticate_def by (intro keeps_intros keeps_call_storage_calls; simp)

lemma quiet_Auth [keeps_intros]: "keeps storage_calls (Auth E code)"
  unfolding Auth_def by (intro keeps_intros keeps_call_storage_calls)

lemma quiet_set_store [keeps_intros]: "keeps storage_calls set_store"
  unfolding set_store_def by (intro keeps_intros keeps_call_storage_calls)

lemma keeps_the_flow [keeps_intros]: "keeps obs the_flow"
  unfolding the_flow_def by (intro keeps_intros)

lemma quiet_update_flow [keeps_intros]: "keeps storage_calls (update_flow g)"
  unfolding update_flow_def by (intro keeps_intros keeps_call_storage_calls)

lemma quiet_bind_ports [keeps_intros]: "keeps storage_calls (bind_ports E addr ports pn)"
  by (induction ports arbitrary: pn) (auto intro!: keeps_intros keeps_call_storage_calls)

lemma quiet_LocalWebserverAuth_body:
  "keeps storage_calls (LocalWebserverAuth_body E host_name port_numbers launch_browser bind_addr)"
  unfolding LocalWebserverAuth_body_def by (intro keeps_intros keeps_call_storage_calls; simp)

lemma quiet_CommandLineAuth_body: "keeps storage_calls (CommandLineAuth_body E)"
  unfolding CommandLineAuth_body_def by (intro keeps_intros keeps_call_storage_calls; simp)

lemma quiet_DeviceAuth_body: "keeps storage_calls (DeviceAuth_body E)"
  unfolding DeviceAuth_body_def by (intro keeps_intros keeps_call_storage_calls; simp)

lemma quiet_service_credentials [keeps_intros]: "keeps storage_calls (service_credentials E)"
  unfolding service_credentials_def by (intro keeps_intros keeps_call_storage_calls; simp)

lemma quiet_ServiceAuth_body: "keeps storage_calls (ServiceAuth_body E)"
  unfolding ServiceAuth_body_def by (intro keeps_intros keeps_call_storage_calls)


lemma quiet_CheckAuth_wrapper:
  assumes "\<not> truthy save_credentials" and "keeps storage_calls decoratee"
  shows "keeps storage_calls (CheckAuth_wrapper E save_credentials decoratee)"
  unfolding CheckAuth_wrapper_def using assms
  by (intro keeps_intros keeps_call_storage_calls; simp)

lemma quiet_CheckServiceAuth_wrapper:
  assumes "\<not> truthy save_credentials" and "keeps storage_calls decoratee"
  shows "keeps storage_calls (CheckServiceAuth_wrapper E save_credentials decoratee)"
  unfolding CheckServiceAuth_wrapper_def using assms
  by (intro keeps_intros keeps_call_storage_calls; simp)

lemma CheckAuth_no_storage:
  assumes "\<not> truthy (dict_get (settings (self s)) ''save_credentials'')"
    and "keeps storage_calls decoratee"
  shows "storage_calls (snd (CheckAuth E decoratee s)) = storage_calls s"
  unfolding CheckAuth_def seq_read
  by (rule keepsD [OF quiet_CheckAuth_wrapper [OF assms]])

lemma CheckServiceAuth_no_storage:
  assumes "\<not> truthy (dict_get (settings (self s)) ''save_credentials'')"
    and "keeps storage_calls decoratee"
  shows "storage_calls (snd (CheckServiceAuth E decoratee s)) = storage_calls s"
proof -
  let ?s = "s\<lparr>self := (self s)\<lparr>auth_method := Some ''service''\<rparr>\<rparr>"
  have "CheckServiceAuth E decoratee s =
      CheckServiceAuth_wrapper E (dict_get (settings (self s)) ''save_credentials'') decoratee ?s"
    by (simp add: CheckServiceAuth_def)
  then show ?thesis
    using keepsD [OF quiet_CheckServiceAuth_wrapper [OF assms], of E ?s]
    by (simp add: storage_calls_def)
qed



end
